theory Spec2Isabelle
  imports Complex_Main "HOL-Library.AList"
begin

section \<open>Values of the tabular records\<close>

text \<open>
  The three scripts read their tables with pandas. A cell of a table is a Python value:
  a missing cell is the float NaN (or \<open>None\<close> where a column is absent and read with
  \<open>row.get\<close>), a numeric cell an integer or a float, a text cell a string. A finite
  float is modelled by the real number it denotes, the two infinite floats and NaN are
  values of their own; the sign of a zero is not modelled. A string is the list of its
  Unicode code points; \<open>of_ascii\<close> writes an ASCII string as such a list.
\<close>

type_synonym utext = "nat list"

definition of_ascii :: "string \<Rightarrow> utext" where
  "of_ascii s = map of_char s"

datatype pyval =
  PNone | PNaN | PBool bool | PInt int | PFloat real | PInf bool | PStr utext

definition pstr :: "string \<Rightarrow> pyval" where
  "pstr s = PStr (of_ascii s)"

datatype py_error = ValueError | TypeError | OverflowError | ZeroDivisionError

text \<open>Python's truth value of a cell, as \<open>if start_id and end_id\<close> takes it.\<close>

fun truthy :: "pyval \<Rightarrow> bool" where
  "truthy PNone = False"
| "truthy PNaN = True"
| "truthy (PBool b) = b"
| "truthy (PInt i) = (i \<noteq> 0)"
| "truthy (PFloat r) = (r \<noteq> 0)"
| "truthy (PInf positive) = True"
| "truthy (PStr s) = (s \<noteq> [])"

text \<open>\<open>pd.isna\<close> and \<open>pd.notna\<close> on a scalar.\<close>

fun isna :: "pyval \<Rightarrow> bool" where
  "isna PNone = True"
| "isna PNaN = True"
| "isna _ = False"

definition notna :: "pyval \<Rightarrow> bool" where
  "notna v = (\<not> isna v)"

section \<open>Name canonicalization: \<open>normalize_name\<close>\<close>

text \<open>
  A station label is either missing (\<open>pd.isna(name)\<close> holds: \<open>None\<close>) or a value that
  \<open>str(name)\<close> renders as the text \<open>s\<close> (\<open>Some s\<close>).

  The character classes are those of Python: whitespace, for \<open>str.strip\<close> and for the
  pattern \<open>\s\<close>, is the set of \<open>str.isspace\<close>; the class of the punctuation pattern
  holds ten ASCII characters and U+3002, U+00B7 and U+2022.

  The NFKC normalization and \<open>str.lower\<close> are modelled on the characters of
  \<open>supported\<close>: ASCII, the whitespace of Unicode, the middle dot, the bullet, the
  ideographic comma and full stop, the CJK unified ideographs U+4E00 to U+9FFF and the
  fullwidth forms U+FF01 to U+FF5E. None of them is a combining mark, so that NFKC works
  on a text of such characters one character at a time: a fullwidth form becomes its
  ASCII character, a space of the compatibility kind the blank U+0020, every other
  character stays. \<open>str.lower\<close> changes the letters A to Z, ASCII or fullwidth.
\<close>

type_synonym label = "utext option"

definition lbl :: "string \<Rightarrow> label" where
  "lbl s = Some (of_ascii s)"

definition is_space :: "nat \<Rightarrow> bool" where
  "is_space c = (c \<in> set [0x09, 0x0A, 0x0B, 0x0C, 0x0D, 0x1C, 0x1D, 0x1E, 0x1F, 0x20,
                           0x85, 0xA0, 0x1680, 0x2028, 0x2029, 0x202F, 0x205F, 0x3000]
                 \<or> (0x2000 \<le> c \<and> c \<le> 0x200A))"

definition is_punct :: "nat \<Rightarrow> bool" where
  "is_punct c = (c \<in> set [0x28, 0x29, 0x5B, 0x5D, 0x5C, 0x2F, 0x2D, 0x2E, 0x2C,
                           0x3002, 0xB7, 0x2022, 0x22])"

definition supported :: "nat \<Rightarrow> bool" where
  "supported c = (c < 0x80 \<or> is_space c \<or> c \<in> set [0xB7, 0x2022, 0x3001, 0x3002]
                  \<or> (0x4E00 \<le> c \<and> c \<le> 0x9FFF) \<or> (0xFF01 \<le> c \<and> c \<le> 0xFF5E))"

definition supported_text :: "utext \<Rightarrow> bool" where
  "supported_text s = list_all supported s"

definition nfkc_char :: "nat \<Rightarrow> nat" where
  "nfkc_char c =
     (if 0xFF01 \<le> c \<and> c \<le> 0xFF5E then c - 0xFEE0
      else if c = 0xA0 \<or> c = 0x3000 \<or> (0x2000 \<le> c \<and> c \<le> 0x200A) \<or> c = 0x202F \<or> c = 0x205F
      then 0x20
      else c)"

definition nfkc :: "utext \<Rightarrow> utext" where
  "nfkc s = map nfkc_char s"

definition py_strip :: "utext \<Rightarrow> utext" where
  "py_strip s = rev (dropWhile is_space (rev (dropWhile is_space s)))"

text \<open>\<open>re.sub(r'\s+', ' ', s)\<close>: every maximal run of whitespace becomes one blank.\<close>

fun collapse_ws :: "utext \<Rightarrow> utext" where
  "collapse_ws [] = []"
| "collapse_ws [c] = (if is_space c then [0x20] else [c])"
| "collapse_ws (c # d # cs) =
     (if is_space c then (if is_space d then collapse_ws (d # cs)
                          else 0x20 # collapse_ws (d # cs))
      else c # collapse_ws (d # cs))"

text \<open>\<open>re.sub(r'[...]+', '', s)\<close>: every character of the class is deleted.\<close>

definition remove_punct :: "utext \<Rightarrow> utext" where
  "remove_punct s = filter (\<lambda>c. \<not> is_punct c) s"

definition lower_char :: "nat \<Rightarrow> nat" where
  "lower_char c =
     (if (0x41 \<le> c \<and> c \<le> 0x5A) \<or> (0xFF21 \<le> c \<and> c \<le> 0xFF3A) then c + 0x20 else c)"

definition py_lower :: "utext \<Rightarrow> utext" where
  "py_lower s = map lower_char s"

definition normalize_name :: "label \<Rightarrow> utext" where
  "normalize_name name =
     (case name of
        None \<Rightarrow> []
      | Some s0 \<Rightarrow>
          (let s = nfkc s0;
               s = py_strip s;
               s = collapse_ws s;
               s = remove_punct s
           in py_lower s))"

section \<open>Conversion of a cell to an integer: \<open>int(year_val)\<close>\<close>

text \<open>
  Python's \<open>int\<close> on a text. A whitespace character from U+007F on counts as a blank,
  and a decimal digit as its ASCII digit; of these digits the model knows the fullwidth
  ones, U+FF10 to U+FF19, which are the ones among the supported characters. Then
  whitespace is dropped at both ends: blank, tab, line feed, vertical tab, form feed and
  carriage return (not U+001C to U+001F, which \<open>str.strip\<close> drops). One sign is
  allowed, and the rest is decimal digits, where single underscores may separate digits.
  Any other text raises \<open>ValueError\<close>. \<open>int\<close> of a float truncates toward zero.
\<close>

definition int_space :: "nat \<Rightarrow> bool" where
  "int_space c = (c \<in> set [0x09, 0x0A, 0x0B, 0x0C, 0x0D, 0x20] \<or> (0x7F \<le> c \<and> is_space c))"

definition int_strip :: "utext \<Rightarrow> utext" where
  "int_strip s = rev (dropWhile int_space (rev (dropWhile int_space s)))"

definition digit_val :: "nat \<Rightarrow> int option" where
  "digit_val c =
     (if 0x30 \<le> c \<and> c \<le> 0x39 then Some (int c - 0x30)
      else if 0xFF10 \<le> c \<and> c \<le> 0xFF19 then Some (int c - 0xFF10)
      else None)"

definition is_digit :: "nat \<Rightarrow> bool" where
  "is_digit c = (digit_val c \<noteq> None)"

fun valid_digits :: "utext \<Rightarrow> bool" where
  "valid_digits [] = False"
| "valid_digits [c] = is_digit c"
| "valid_digits (c # d # cs) =
     (is_digit c \<and> (if d = 0x5F then valid_digits cs else valid_digits (d # cs)))"

definition digits_value :: "utext \<Rightarrow> int" where
  "digits_value ds = foldl (\<lambda>acc c. 10 * acc + (case digit_val c of None \<Rightarrow> 0 | Some d \<Rightarrow> d)) 0
       (filter is_digit ds)"

definition py_int_str :: "utext \<Rightarrow> py_error + int" where
  "py_int_str s0 =
     (let s = int_strip s0;
          neg = (s \<noteq> [] \<and> hd s = 0x2D);
          body = (if s \<noteq> [] \<and> (hd s = 0x2D \<or> hd s = 0x2B) then tl s else s)
      in if valid_digits body
         then Inr (if neg then - digits_value body else digits_value body)
         else Inl ValueError)"

definition trunc :: "real \<Rightarrow> int" where
  "trunc r = (if 0 \<le> r then \<lfloor>r\<rfloor> else \<lceil>r\<rceil>)"

fun py_int :: "pyval \<Rightarrow> py_error + int" where
  "py_int PNone = Inl TypeError"
| "py_int PNaN = Inl ValueError"
| "py_int (PBool b) = Inr (if b then 1 else 0)"
| "py_int (PInt i) = Inr i"
| "py_int (PFloat r) = Inr (trunc r)"
| "py_int (PInf positive) = Inl OverflowError"
| "py_int (PStr s) = py_int_str s"

section \<open>The network builder: \<open>main\<close> of \<open>build network.py\<close>\<close>

record station_row =
  station_id :: pyval
  station_name :: label
  province :: pyval
  latitude :: pyval
  longitude :: pyval

record track_row =
  start_station :: label
  end_station :: label
  length_t :: pyval
  year :: pyval
  type_t :: pyval
  edge_id :: pyval

text \<open>
  The graph is a \<open>networkx.MultiDiGraph\<close>: a dictionary of nodes with their attributes
  and, between any ordered pair of nodes, any number of edges, told apart by an integer
  key. \<open>add_node\<close> on a node that exists replaces the attributes given; \<open>add_edge\<close>
  first creates an endpoint that is not a node yet, with no attributes, and then adds a
  new edge under the first key not in use between the pair, which is the number of edges
  there since no edge is ever removed. The identifiers of the nodes and of the edges are
  cells of one column of the station table, where two cells are equal for Python when
  they are the same value; they are compared as values.
\<close>

record node_attrs =
  n_name :: label
  n_province :: pyval
  n_latitude :: pyval
  n_longitude :: pyval

record edge =
  e_src :: pyval
  e_dst :: pyval
  e_key :: nat
  e_length :: pyval
  e_year :: "int option"
  e_year_raw :: pyval
  e_type :: pyval
  e_edge_id :: pyval

record multidigraph =
  nodes :: "(pyval \<times> node_attrs option) list"
  edges :: "edge list"

definition empty_graph :: multidigraph where
  "empty_graph = \<lparr>nodes = [], edges = []\<rparr>"

definition add_node :: "pyval \<Rightarrow> node_attrs \<Rightarrow> multidigraph \<Rightarrow> multidigraph" where
  "add_node n attrs G = G\<lparr>nodes := AList.update n (Some attrs) (nodes G)\<rparr>"

definition ensure_node :: "pyval \<Rightarrow> (pyval \<times> node_attrs option) list
    \<Rightarrow> (pyval \<times> node_attrs option) list" where
  "ensure_node n ns = (if n \<in> fst ` set ns then ns else ns @ [(n, None)])"

definition new_edge_key :: "multidigraph \<Rightarrow> pyval \<Rightarrow> pyval \<Rightarrow> nat" where
  "new_edge_key G u v = length (filter (\<lambda>e. e_src e = u \<and> e_dst e = v) (edges G))"

definition add_edge ::
  "pyval \<Rightarrow> pyval \<Rightarrow> pyval \<Rightarrow> int option \<Rightarrow> pyval \<Rightarrow> pyval \<Rightarrow> pyval
    \<Rightarrow> multidigraph \<Rightarrow> multidigraph" where
  "add_edge u v len yr yr_raw ty eid G =
     G\<lparr>nodes := ensure_node v (ensure_node u (nodes G)),
       edges := edges G @ [\<lparr>e_src = u, e_dst = v, e_key = new_edge_key G u v,
                            e_length = len, e_year = yr, e_year_raw = yr_raw,
                            e_type = ty, e_edge_id = eid\<rparr>]\<rparr>"

text \<open>The dictionary \<open>name_to_id\<close> and its \<open>get\<close>, which gives \<open>None\<close> for a key not stored.\<close>

type_synonym name_index = "utext \<rightharpoonup> pyval"

definition dict_get :: "name_index \<Rightarrow> utext \<Rightarrow> pyval" where
  "dict_get m k = (case m k of None \<Rightarrow> PNone | Some v \<Rightarrow> v)"

definition build_index :: "station_row list \<Rightarrow> name_index" where
  "build_index stations_df =
     fold (\<lambda>row name_to_id. name_to_id(normalize_name (station_name row) \<mapsto> station_id row))
          stations_df Map.empty"

definition add_nodes :: "station_row list \<Rightarrow> multidigraph \<Rightarrow> multidigraph" where
  "add_nodes stations_df G =
     fold (\<lambda>row. add_node (station_id row)
                    \<lparr>n_name = station_name row, n_province = province row,
                     n_latitude = latitude row, n_longitude = longitude row\<rparr>)
          stations_df G"

text \<open>
  \<open>tracks_df['type'].map(type_mapping).fillna(tracks_df['type'])\<close>: a type of the table
  is replaced by its entry, any other value is kept.
\<close>

definition type_mapping :: "(utext \<times> utext) list" where
  "type_mapping = [(of_ascii ''rail_both'', of_ascii ''rail_both''),
                   (of_ascii ''rail_good'', of_ascii ''rail_good''),
                   (of_ascii ''rail pass'', of_ascii ''rail_pass''),
                   (of_ascii ''road'', of_ascii ''road'')]"

definition type_standardized :: "pyval \<Rightarrow> pyval" where
  "type_standardized t =
     (case t of
        PStr s \<Rightarrow> (case map_of type_mapping s of None \<Rightarrow> t | Some s' \<Rightarrow> PStr s')
      | _ \<Rightarrow> t)"

record build_state =
  name_to_id :: name_index
  G :: multidigraph
  edges_added :: nat
  missing_stations :: "label list"

text \<open>
  The year of a track: \<open>year_val = row['year'] if pd.notna(row['year']) else None\<close> and
  \<open>year_int = int(year_val) if year_val is not None else None\<close>.
\<close>

definition year_int_of :: "pyval \<Rightarrow> py_error + int option" where
  "year_int_of y =
     (let year_val = (if notna y then Some y else None)
      in case year_val of
           None \<Rightarrow> Inr None
         | Some yv \<Rightarrow> (case py_int yv of Inl e \<Rightarrow> Inl e | Inr i \<Rightarrow> Inr (Some i)))"

text \<open>
  One pass of the loop over the track records. An exception of \<open>int(year_val)\<close> leaves
  the loop; the handler \<open>except Exception\<close> at the end of \<open>main\<close> then prints the error
  and \<open>main\<close> returns \<open>False\<close>: this is the result \<open>Inl\<close>.
\<close>

definition add_track :: "build_state \<Rightarrow> track_row \<Rightarrow> py_error + build_state" where
  "add_track st row =
     (let start_name = start_station row;
          end_name = end_station row;
          start_normalized = normalize_name start_name;
          end_normalized = normalize_name end_name;
          start_id = dict_get (name_to_id st) start_normalized;
          end_id = dict_get (name_to_id st) end_normalized
      in if truthy start_id \<and> truthy end_id
         then (case year_int_of (year row) of
                 Inl e \<Rightarrow> Inl e
               | Inr year_int \<Rightarrow>
                   Inr (st\<lparr>G := add_edge start_id end_id (length_t row) year_int (year row)
                                   (type_standardized (type_t row)) (edge_id row) (G st),
                           edges_added := edges_added st + 1\<rparr>))
         else Inr (st\<lparr>missing_stations :=
                        missing_stations st
                        @ (if \<not> truthy start_id then [start_name] else [])
                        @ (if \<not> truthy end_id then [end_name] else [])\<rparr>))"

fun add_tracks :: "build_state \<Rightarrow> track_row list \<Rightarrow> py_error + build_state" where
  "add_tracks st [] = Inr st"
| "add_tracks st (row # rows) =
     (case add_track st row of Inl e \<Rightarrow> Inl e | Inr st' \<Rightarrow> add_tracks st' rows)"

definition build_network :: "station_row list \<Rightarrow> track_row list \<Rightarrow> py_error + build_state" where
  "build_network stations_df tracks_df =
     add_tracks \<lparr>name_to_id = build_index stations_df,
                 G = add_nodes stations_df empty_graph,
                 edges_added = 0,
                 missing_stations = []\<rparr> tracks_df"

text \<open>The edge that a track record gives between \<open>u\<close> and \<open>v\<close> under the key \<open>k\<close>.\<close>

definition track_edge :: "pyval \<Rightarrow> pyval \<Rightarrow> nat \<Rightarrow> track_row \<Rightarrow> int option \<Rightarrow> edge" where
  "track_edge u v k row yr =
     \<lparr>e_src = u, e_dst = v, e_key = k, e_length = length_t row, e_year = yr,
      e_year_raw = year row, e_type = type_standardized (type_t row),
      e_edge_id = edge_id row\<rparr>"

text \<open>What a pass of the loop leaves to see: the graph and the two diagnostics.\<close>

definition outcome :: "py_error + build_state \<Rightarrow> py_error + (multidigraph \<times> nat \<times> label list)" where
  "outcome r = (case r of Inl e \<Rightarrow> Inl e
                | Inr st \<Rightarrow> Inr (G st, edges_added st, missing_stations st))"

section \<open>Nearest-city assignment: \<open>assign_provinces_by_geo.py\<close>\<close>

text \<open>A float: a finite double, given by the real number it denotes, an infinity or NaN.\<close>

datatype pyfloat = Fin real | PosInf | NegInf | NaN

text \<open>
  \<open>float(x)\<close> on a cell. The parser of text is Python's own and is a parameter
  \<open>float_of_str\<close>: \<open>None\<close> for text that \<open>float\<close> rejects with \<open>ValueError\<close>.
  \<open>float(None)\<close> raises \<open>TypeError\<close>; \<open>float\<close> of NaN is NaN and raises nothing.
\<close>

fun py_float :: "(utext \<Rightarrow> pyfloat option) \<Rightarrow> pyval \<Rightarrow> py_error + pyfloat" where
  "py_float float_of_str PNone = Inl TypeError"
| "py_float float_of_str PNaN = Inr NaN"
| "py_float float_of_str (PBool b) = Inr (Fin (if b then 1 else 0))"
| "py_float float_of_str (PInt i) = Inr (Fin (real_of_int i))"
| "py_float float_of_str (PFloat r) = Inr (Fin r)"
| "py_float float_of_str (PInf positive) = Inr (if positive then PosInf else NegInf)"
| "py_float float_of_str (PStr s) =
     (case float_of_str s of None \<Rightarrow> Inl ValueError | Some f \<Rightarrow> Inr f)"

subsection \<open>The arithmetic of doubles\<close>

text \<open>
  What an operation of numpy gives on finite operands depends on the rounding of doubles
  and on the mathematical library; it is not fixed here. The record \<open>float_ops\<close> holds,
  for every operation that \<open>haversine\<close> uses, the function from finite operands to the
  double that results, and every property below holds whatever these functions are. On
  an operand that is infinite or NaN the result is the one that IEEE 754 fixes; NaN as
  an operand gives NaN, and so does the product of an infinity and a zero: \<open>fl_sign\<close> is
  0 for NaN and for a zero, and \<open>inf_of_sign 0\<close> is NaN.
\<close>

record float_ops =
  op_add :: "real \<Rightarrow> real \<Rightarrow> pyfloat"
  op_sub :: "real \<Rightarrow> real \<Rightarrow> pyfloat"
  op_mul :: "real \<Rightarrow> real \<Rightarrow> pyfloat"
  op_div :: "real \<Rightarrow> real \<Rightarrow> pyfloat"
  op_deg2rad :: "real \<Rightarrow> pyfloat"
  op_sin :: "real \<Rightarrow> pyfloat"
  op_cos :: "real \<Rightarrow> pyfloat"
  op_sqrt :: "real \<Rightarrow> pyfloat"
  op_arcsin :: "real \<Rightarrow> pyfloat"

fun fl_sign :: "pyfloat \<Rightarrow> int" where
  "fl_sign (Fin r) = (if 0 < r then 1 else if r < 0 then - 1 else 0)"
| "fl_sign PosInf = 1"
| "fl_sign NegInf = - 1"
| "fl_sign NaN = 0"

definition inf_of_sign :: "int \<Rightarrow> pyfloat" where
  "inf_of_sign s = (if s = 0 then NaN else if 0 < s then PosInf else NegInf)"

fun fl_add :: "float_ops \<Rightarrow> pyfloat \<Rightarrow> pyfloat \<Rightarrow> pyfloat" where
  "fl_add ops (Fin a) (Fin b) = op_add ops a b"
| "fl_add ops NaN y = NaN"
| "fl_add ops x NaN = NaN"
| "fl_add ops PosInf NegInf = NaN"
| "fl_add ops NegInf PosInf = NaN"
| "fl_add ops PosInf y = PosInf"
| "fl_add ops NegInf y = NegInf"
| "fl_add ops x PosInf = PosInf"
| "fl_add ops x NegInf = NegInf"

fun fl_sub :: "float_ops \<Rightarrow> pyfloat \<Rightarrow> pyfloat \<Rightarrow> pyfloat" where
  "fl_sub ops (Fin a) (Fin b) = op_sub ops a b"
| "fl_sub ops NaN y = NaN"
| "fl_sub ops x NaN = NaN"
| "fl_sub ops PosInf PosInf = NaN"
| "fl_sub ops NegInf NegInf = NaN"
| "fl_sub ops PosInf y = PosInf"
| "fl_sub ops NegInf y = NegInf"
| "fl_sub ops x PosInf = NegInf"
| "fl_sub ops x NegInf = PosInf"

fun fl_mul :: "float_ops \<Rightarrow> pyfloat \<Rightarrow> pyfloat \<Rightarrow> pyfloat" where
  "fl_mul ops (Fin a) (Fin b) = op_mul ops a b"
| "fl_mul ops x y = inf_of_sign (fl_sign x * fl_sign y)"

text \<open>
  The division; the script divides by the constant 2.0 only. A finite value divided by an
  infinity is a zero; an infinity divided by a finite value keeps or changes its sign
  with the sign of the divisor, where a zero counts as positive.
\<close>

fun fl_div :: "float_ops \<Rightarrow> pyfloat \<Rightarrow> pyfloat \<Rightarrow> pyfloat" where
  "fl_div ops (Fin a) (Fin b) = op_div ops a b"
| "fl_div ops (Fin a) NaN = NaN"
| "fl_div ops (Fin a) y = Fin 0"
| "fl_div ops x (Fin b) = inf_of_sign (fl_sign x * (if b < 0 then - 1 else 1))"
| "fl_div ops x y = NaN"

fun fl_deg2rad :: "float_ops \<Rightarrow> pyfloat \<Rightarrow> pyfloat" where
  "fl_deg2rad ops (Fin a) = op_deg2rad ops a"
| "fl_deg2rad ops x = x"

fun fl_sin :: "float_ops \<Rightarrow> pyfloat \<Rightarrow> pyfloat" where
  "fl_sin ops (Fin a) = op_sin ops a"
| "fl_sin ops x = NaN"

fun fl_cos :: "float_ops \<Rightarrow> pyfloat \<Rightarrow> pyfloat" where
  "fl_cos ops (Fin a) = op_cos ops a"
| "fl_cos ops x = NaN"

fun fl_sqrt :: "float_ops \<Rightarrow> pyfloat \<Rightarrow> pyfloat" where
  "fl_sqrt ops (Fin a) = op_sqrt ops a"
| "fl_sqrt ops PosInf = PosInf"
| "fl_sqrt ops x = NaN"

fun fl_arcsin :: "float_ops \<Rightarrow> pyfloat \<Rightarrow> pyfloat" where
  "fl_arcsin ops (Fin a) = op_arcsin ops a"
| "fl_arcsin ops x = NaN"

text \<open>\<open>x**2\<close> on an array is the product of \<open>x\<close> with itself.\<close>

definition fl_square :: "float_ops \<Rightarrow> pyfloat \<Rightarrow> pyfloat" where
  "fl_square ops x = fl_mul ops x x"

text \<open>
  The operations without rounding, on the real numbers: the arithmetic that the doubles
  approximate.
\<close>

definition exact_ops :: float_ops where
  "exact_ops =
     \<lparr>op_add = (\<lambda>a b. Fin (a + b)),
      op_sub = (\<lambda>a b. Fin (a - b)),
      op_mul = (\<lambda>a b. Fin (a * b)),
      op_div = (\<lambda>a b. if b = 0 then inf_of_sign (fl_sign (Fin a)) else Fin (a / b)),
      op_deg2rad = (\<lambda>a. Fin (a * pi / 180)),
      op_sin = (\<lambda>a. Fin (sin a)),
      op_cos = (\<lambda>a. Fin (cos a)),
      op_sqrt = (\<lambda>a. if a < 0 then NaN else Fin (sqrt a)),
      op_arcsin = (\<lambda>a. if - 1 \<le> a \<and> a \<le> 1 then Fin (arcsin a) else NaN)\<rparr>"

subsection \<open>The distance and the choice of the nearest city\<close>

definition haversine ::
  "float_ops \<Rightarrow> pyfloat \<Rightarrow> pyfloat \<Rightarrow> pyfloat \<Rightarrow> pyfloat \<Rightarrow> pyfloat" where
  "haversine ops lon1' lat1' lon2' lat2' =
     (let lon1 = fl_deg2rad ops lon1';
          lat1 = fl_deg2rad ops lat1';
          lon2 = fl_deg2rad ops lon2';
          lat2 = fl_deg2rad ops lat2';
          dlon = fl_sub ops lon2 lon1;
          dlat = fl_sub ops lat2 lat1;
          a = fl_add ops
                (fl_square ops (fl_sin ops (fl_div ops dlat (Fin 2))))
                (fl_mul ops (fl_mul ops (fl_cos ops lat1) (fl_cos ops lat2))
                   (fl_square ops (fl_sin ops (fl_div ops dlon (Fin 2)))));
          c = fl_mul ops (Fin 2) (fl_arcsin ops (fl_sqrt ops a));
          R = Fin 6371
      in fl_mul ops R c)"

text \<open>
  The comparison \<open>x <= y\<close> of doubles, false when an operand is NaN, and \<open>np.argmin\<close>:
  the first index of the least entry, where NaN counts as least: the scan replaces its
  candidate by an entry \<open>x\<close> when \<open>x >= candidate\<close> is false, and stops at a NaN. On an
  empty array it raises \<open>ValueError\<close>.
\<close>

fun fl_le :: "pyfloat \<Rightarrow> pyfloat \<Rightarrow> bool" where
  "fl_le NaN y = False"
| "fl_le x NaN = False"
| "fl_le (Fin a) (Fin b) = (a \<le> b)"
| "fl_le NegInf y = True"
| "fl_le x PosInf = True"
| "fl_le x y = False"

definition fl_ge :: "pyfloat \<Rightarrow> pyfloat \<Rightarrow> bool" where
  "fl_ge x y = fl_le y x"

fun argmin_from :: "nat \<Rightarrow> pyfloat \<Rightarrow> nat \<Rightarrow> pyfloat list \<Rightarrow> nat" where
  "argmin_from bi bv i [] = bi"
| "argmin_from bi bv i (x # xs) =
     (if bv = NaN then bi
      else if \<not> fl_ge x bv then argmin_from i x (Suc i) xs
      else argmin_from bi bv (Suc i) xs)"

definition np_argmin :: "pyfloat list \<Rightarrow> py_error + nat" where
  "np_argmin ds = (case ds of [] \<Rightarrow> Inl ValueError | d # rest \<Rightarrow> Inr (argmin_from 0 d 1 rest))"

text \<open>The table of province names.\<close>

definition PROVINCE_NAME_MAP :: "(utext \<times> utext) list" where
  "PROVINCE_NAME_MAP = [
   (of_ascii ''BEIJING'', [0x5317, 0x4EAC, 0x5E02]),
   (of_ascii ''TIANJIN'', [0x5929, 0x6D25, 0x5E02]),
   (of_ascii ''HEBEI'', [0x6CB3, 0x5317, 0x7701]),
   (of_ascii ''SHANXI'', [0x5C71, 0x897F, 0x7701]),
   (of_ascii ''INNER MONGOLIA'', [0x5185, 0x8499, 0x53E4, 0x81EA, 0x6CBB, 0x533A]),
   (of_ascii ''NEIMENGGU'', [0x5185, 0x8499, 0x53E4, 0x81EA, 0x6CBB, 0x533A]),
   (of_ascii ''LIAONING'', [0x8FBD, 0x5B81, 0x7701]),
   (of_ascii ''JILIN'', [0x5409, 0x6797, 0x7701]),
   (of_ascii ''HEILONGJIANG'', [0x9ED1, 0x9F99, 0x6C5F, 0x7701]),
   (of_ascii ''SHANGHAI'', [0x4E0A, 0x6D77, 0x5E02]),
   (of_ascii ''JIANGSU'', [0x6C5F, 0x82CF, 0x7701]),
   (of_ascii ''ZHEJIANG'', [0x6D59, 0x6C5F, 0x7701]),
   (of_ascii ''ANHUI'', [0x5B89, 0x5FBD, 0x7701]),
   (of_ascii ''FUJIAN'', [0x798F, 0x5EFA, 0x7701]),
   (of_ascii ''JIANGXI'', [0x6C5F, 0x897F, 0x7701]),
   (of_ascii ''SHANDONG'', [0x5C71, 0x4E1C, 0x7701]),
   (of_ascii ''HENAN'', [0x6CB3, 0x5357, 0x7701]),
   (of_ascii ''HUBEI'', [0x6E56, 0x5317, 0x7701]),
   (of_ascii ''HUNAN'', [0x6E56, 0x5357, 0x7701]),
   (of_ascii ''GUANGDONG'', [0x5E7F, 0x4E1C, 0x7701]),
   (of_ascii ''GUANGXI'', [0x5E7F, 0x897F, 0x58EE, 0x65CF, 0x81EA, 0x6CBB, 0x533A]),
   (of_ascii ''HAINAN'', [0x6D77, 0x5357, 0x7701]),
   (of_ascii ''CHONGQING'', [0x91CD, 0x5E86, 0x5E02]),
   (of_ascii ''SICHUAN'', [0x56DB, 0x5DDD, 0x7701]),
   (of_ascii ''GUIZHOU'', [0x8D35, 0x5DDE, 0x7701]),
   (of_ascii ''YUNNAN'', [0x4E91, 0x5357, 0x7701]),
   (of_ascii ''TIBET'', [0x897F, 0x85CF, 0x81EA, 0x6CBB, 0x533A]),
   (of_ascii ''XIZANG'', [0x897F, 0x85CF, 0x81EA, 0x6CBB, 0x533A]),
   (of_ascii ''SHAANXI'', [0x9655, 0x897F, 0x7701]),
   (of_ascii ''GANSU'', [0x7518, 0x8083, 0x7701]),
   (of_ascii ''QINGHAI'', [0x9752, 0x6D77, 0x7701]),
   (of_ascii ''NINGXIA'', [0x5B81, 0x590F, 0x56DE, 0x65CF, 0x81EA, 0x6CBB, 0x533A]),
   (of_ascii ''XINJIANG'', [0x65B0, 0x7586, 0x7EF4, 0x543E, 0x5C14, 0x81EA, 0x6CBB, 0x533A])]"

text \<open>\<open>PROVINCE_NAME_MAP.get(nearest_province_en, nearest_province_en)\<close>.\<close>

definition province_cn :: "pyval \<Rightarrow> pyval" where
  "province_cn p =
     (case p of
        PStr s \<Rightarrow> (case map_of PROVINCE_NAME_MAP s of None \<Rightarrow> p | Some cn \<Rightarrow> PStr cn)
      | _ \<Rightarrow> p)"

text \<open>
  A city of the gazetteer, after \<open>dropna(subset=['Lat', 'Long'])\<close> and \<open>astype(float)\<close>:
  its coordinates are floats, and none is NaN.
\<close>

record city =
  Name_EN :: pyval
  Long :: pyfloat
  Lat :: pyfloat
  Province :: pyval

text \<open>A row of \<open>unique_stations\<close>, with the result columns the script adds.\<close>

record geo_row =
  station_id_g :: pyval
  longitude_g :: pyval
  latitude_g :: pyval
  province_code :: pyval
  province_name :: pyval
  prov_assign_method :: utext
  nearest_city :: pyval
  distance_to_city_km :: pyfloat

definition prepare_row :: "pyval \<Rightarrow> pyval \<Rightarrow> pyval \<Rightarrow> geo_row" where
  "prepare_row sid lon lat =
     \<lparr>station_id_g = sid, longitude_g = lon, latitude_g = lat,
      province_code = PStr [], province_name = PStr [], prov_assign_method = [],
      nearest_city = PStr [], distance_to_city_km = NaN\<rparr>"

text \<open>
  The two conversions under \<open>try\<close>; \<open>except (ValueError, TypeError)\<close> catches these two
  errors and no other.
\<close>

definition station_coords ::
  "(utext \<Rightarrow> pyfloat option) \<Rightarrow> geo_row \<Rightarrow> py_error + (pyfloat \<times> pyfloat)" where
  "station_coords float_of_str row =
     (case py_float float_of_str (longitude_g row) of
        Inl e \<Rightarrow> Inl e
      | Inr station_lon \<Rightarrow>
          (case py_float float_of_str (latitude_g row) of
             Inl e \<Rightarrow> Inl e
           | Inr station_lat \<Rightarrow> Inr (station_lon, station_lat)))"

text \<open>The distances of a station to all cities, in the order of the gazetteer.\<close>

definition dists_to :: "float_ops \<Rightarrow> pyfloat \<Rightarrow> pyfloat \<Rightarrow> city list \<Rightarrow> pyfloat list" where
  "dists_to ops station_lon station_lat cities =
     map (\<lambda>c. haversine ops station_lon station_lat (Long c) (Lat c)) cities"

text \<open>
  The body of the loop for one row. \<open>Inl\<close> is an exception that nothing catches: the
  script stops with it.
\<close>

definition assign_station ::
  "float_ops \<Rightarrow> (utext \<Rightarrow> pyfloat option) \<Rightarrow> city list \<Rightarrow> geo_row \<Rightarrow> py_error + geo_row" where
  "assign_station ops float_of_str cities row =
     (case station_coords float_of_str row of
        Inl e \<Rightarrow>
          (if e = ValueError \<or> e = TypeError
           then Inr (row\<lparr>prov_assign_method := of_ascii ''no_coords''\<rparr>)
           else Inl e)
      | Inr (station_lon, station_lat) \<Rightarrow>
          (let dists = dists_to ops station_lon station_lat cities
           in case np_argmin dists of
                Inl e \<Rightarrow> Inl e
              | Inr nearest_idx \<Rightarrow>
                  (let nearest_city' = Name_EN (cities ! nearest_idx);
                       nearest_dist = dists ! nearest_idx;
                       nearest_province_en = Province (cities ! nearest_idx);
                       nearest_province_cn = province_cn nearest_province_en
                   in Inr (row\<lparr>province_code := nearest_province_en,
                               province_name := nearest_province_cn,
                               prov_assign_method := of_ascii ''assigned_by_nearest_city'',
                               nearest_city := nearest_city',
                               distance_to_city_km := nearest_dist\<rparr>))))"

record assign_state =
  unique_stations :: "geo_row list"
  filled :: nat
  no_coords :: nat

fun assign_loop ::
  "float_ops \<Rightarrow> (utext \<Rightarrow> pyfloat option) \<Rightarrow> city list \<Rightarrow> assign_state \<Rightarrow> geo_row list
    \<Rightarrow> py_error + assign_state" where
  "assign_loop ops float_of_str cities st [] = Inr st"
| "assign_loop ops float_of_str cities st (row # rows) =
     (case assign_station ops float_of_str cities row of
        Inl e \<Rightarrow> Inl e
      | Inr row' \<Rightarrow>
          assign_loop ops float_of_str cities
            (if prov_assign_method row' = of_ascii ''no_coords''
             then st\<lparr>unique_stations := unique_stations st @ [row'],
                     no_coords := no_coords st + 1\<rparr>
             else st\<lparr>unique_stations := unique_stations st @ [row'],
                     filled := filled st + 1\<rparr>)
            rows)"

definition assign_provinces ::
  "float_ops \<Rightarrow> (utext \<Rightarrow> pyfloat option) \<Rightarrow> city list \<Rightarrow> (pyval \<times> pyval \<times> pyval) list
    \<Rightarrow> py_error + assign_state" where
  "assign_provinces ops float_of_str cities stations =
     assign_loop ops float_of_str cities \<lparr>unique_stations = [], filled = 0, no_coords = 0\<rparr>
       (map (\<lambda>(sid, lon, lat). prepare_row sid lon lat) stations)"

section \<open>The simple graph and its statistics: \<open>build and plot the network.py\<close>\<close>

record station_rec =
  station_id_a :: pyval
  longitude_a :: pyval
  latitude_a :: pyval
  city_id :: pyval
  city_name_chn :: pyval
  city_name_eng :: pyval
  province_code_a :: pyval
  province_name_a :: pyval

record edge_rec =
  source_station :: pyval
  target_station :: pyval
  edge_id_a :: pyval
  seg_id :: pyval
  length_km :: pyval

text \<open>
  The graph is a \<open>networkx.Graph\<close>: undirected, with at most one edge between two nodes.
  Its nodes and the neighbours of a node are keys of dictionaries, and \<open>source in G.nodes\<close>
  looks a key up. Python finds a key by \<open>==\<close>: numbers are equal when they denote the same
  number, whatever their type (\<open>1 == 1.0 == True\<close>), strings when they are the same
  text, \<open>None\<close> equals \<open>None\<close> only. NaN is equal to nothing, not even to NaN: a lookup
  finds a NaN key only by the identity of the object, and the NaN that \<open>iterrows\<close> reads
  from a numeric column is a new object in every row. The NaN cells are taken as such:
  no lookup finds them, and each of them is a key of its own. A dictionary keeps the key
  it has when a value is stored under an equal key.
\<close>

datatype pykey = KNone | KNum real | KInf bool | KStr utext

fun key_of :: "pyval \<Rightarrow> pykey option" where
  "key_of PNone = Some KNone"
| "key_of PNaN = None"
| "key_of (PBool b) = Some (KNum (if b then 1 else 0))"
| "key_of (PInt i) = Some (KNum (real_of_int i))"
| "key_of (PFloat r) = Some (KNum r)"
| "key_of (PInf positive) = Some (KInf positive)"
| "key_of (PStr s) = Some (KStr s)"

definition py_eq :: "pyval \<Rightarrow> pyval \<Rightarrow> bool" where
  "py_eq a b = (key_of a \<noteq> None \<and> key_of a = key_of b)"

fun py_update :: "pyval \<Rightarrow> 'v \<Rightarrow> (pyval \<times> 'v) list \<Rightarrow> (pyval \<times> 'v) list" where
  "py_update k v [] = [(k, v)]"
| "py_update k v (p # ps) =
     (if py_eq (fst p) k then (fst p, v) # ps else p # py_update k v ps)"

text \<open>
  \<open>add_edge\<close> on a pair that is joined already, in either direction, replaces the
  attributes given and adds nothing; otherwise it first creates an endpoint that is not
  a node yet, with no attributes. An edge is listed with the endpoints of the record
  that created it, which are equal, in the sense of Python, to the keys of its nodes.
\<close>

record edge_attrs =
  a_edge_id :: pyval
  a_seg_id :: pyval
  a_length_km :: pyval

record graph =
  g_nodes :: "(pyval \<times> station_rec option) list"
  g_edges :: "((pyval \<times> pyval) \<times> edge_attrs) list"

definition nx_Graph :: graph where
  "nx_Graph = \<lparr>g_nodes = [], g_edges = []\<rparr>"

definition has_node :: "graph \<Rightarrow> pyval \<Rightarrow> bool" where
  "has_node Gr n = (\<exists>p \<in> set (g_nodes Gr). py_eq (fst p) n)"

definition graph_add_node :: "pyval \<Rightarrow> station_rec \<Rightarrow> graph \<Rightarrow> graph" where
  "graph_add_node n attrs Gr = Gr\<lparr>g_nodes := py_update n (Some attrs) (g_nodes Gr)\<rparr>"

definition ensure_gnode :: "pyval \<Rightarrow> (pyval \<times> station_rec option) list
    \<Rightarrow> (pyval \<times> station_rec option) list" where
  "ensure_gnode n ns = (if \<exists>p \<in> set ns. py_eq (fst p) n then ns else ns @ [(n, None)])"

definition joins :: "pyval \<times> pyval \<Rightarrow> pyval \<Rightarrow> pyval \<Rightarrow> bool" where
  "joins p u v = (py_eq (fst p) u \<and> py_eq (snd p) v \<or> py_eq (fst p) v \<and> py_eq (snd p) u)"

fun put_edge :: "pyval \<Rightarrow> pyval \<Rightarrow> edge_attrs \<Rightarrow> ((pyval \<times> pyval) \<times> edge_attrs) list
    \<Rightarrow> ((pyval \<times> pyval) \<times> edge_attrs) list" where
  "put_edge u v attrs [] = [((u, v), attrs)]"
| "put_edge u v attrs ((p, old) # es) =
     (if joins p u v then (p, attrs) # es else (p, old) # put_edge u v attrs es)"

definition graph_add_edge :: "pyval \<Rightarrow> pyval \<Rightarrow> edge_attrs \<Rightarrow> graph \<Rightarrow> graph" where
  "graph_add_edge u v attrs Gr =
     Gr\<lparr>g_nodes := ensure_gnode v (ensure_gnode u (g_nodes Gr)),
        g_edges := put_edge u v attrs (g_edges Gr)\<rparr>"

text \<open>The attributes that an edge record gives its edge.\<close>

definition attrs_of :: "edge_rec \<Rightarrow> edge_attrs" where
  "attrs_of edge = \<lparr>a_edge_id = edge_id_a edge, a_seg_id = seg_id edge,
                    a_length_km = length_km edge\<rparr>"

definition add_edge_rec :: "edge_rec \<Rightarrow> graph \<Rightarrow> graph" where
  "add_edge_rec edge Gr =
     (let source = source_station edge;
          target = target_station edge
      in if has_node Gr source \<and> has_node Gr target
         then graph_add_edge source target (attrs_of edge) Gr
         else Gr)"

definition build_networkx_graph :: "station_rec list \<Rightarrow> edge_rec list \<Rightarrow> graph" where
  "build_networkx_graph stations edges_df =
     fold add_edge_rec edges_df
       (fold (\<lambda>station. graph_add_node (station_id_a station) station) stations nx_Graph)"

definition number_of_nodes :: "graph \<Rightarrow> nat" where
  "number_of_nodes Gr = length (g_nodes Gr)"

definition number_of_edges :: "graph \<Rightarrow> nat" where
  "number_of_edges Gr = length (g_edges Gr)"

text \<open>Python's true division, which raises on a zero divisor.\<close>

definition py_truediv :: "real \<Rightarrow> real \<Rightarrow> py_error + real" where
  "py_truediv a b = (if b = 0 then Inl ZeroDivisionError else Inr (a / b))"

text \<open>
  Modelled from the spec: \<open>nx.density\<close> is a function of the networkx library, whose code
  is not part of the repository. The spec gives the density as the edge count divided by
  \<open>n (n - 1) / 2\<close>, and as 0 when the vertex count \<open>n\<close> is less than 2.
\<close>

definition density :: "graph \<Rightarrow> py_error + real" where
  "density Gr =
     (let n = number_of_nodes Gr;
          m = number_of_edges Gr
      in if n < 2 then Inr 0
         else py_truediv (real m) (real (n * (n - 1)) / 2))"

text \<open>
  Modelled from the spec: \<open>nx.number_connected_components\<close> is a function of the networkx
  library, whose code is not part of the repository. The spec asks for the number of
  maximal sets of vertices reachable from one another. Every node starts with a label of
  its own; each edge gives the nodes labelled like its target the label of its source;
  the labels left are counted.
\<close>

definition relabel :: "nat \<Rightarrow> nat \<Rightarrow> (pyval \<times> nat) list \<Rightarrow> (pyval \<times> nat) list" where
  "relabel old new ls = map (\<lambda>(n, l). (n, if l = old then new else l)) ls"

definition label_of :: "(pyval \<times> nat) list \<Rightarrow> pyval \<Rightarrow> nat option" where
  "label_of ls n = map_option snd (find (\<lambda>p. py_eq (fst p) n) ls)"

definition join_labels :: "(pyval \<times> pyval) \<times> edge_attrs \<Rightarrow> (pyval \<times> nat) list
    \<Rightarrow> (pyval \<times> nat) list" where
  "join_labels e ls =
     (case (label_of ls (fst (fst e)), label_of ls (snd (fst e))) of
        (Some lu, Some lv) \<Rightarrow> relabel lv lu ls
      | _ \<Rightarrow> ls)"

definition number_connected_components :: "graph \<Rightarrow> nat" where
  "number_connected_components Gr =
     (let init = zip (map fst (g_nodes Gr)) [0 ..< length (g_nodes Gr)];
          final = fold join_labels (g_edges Gr) init
      in length (remdups (map snd final)))"

record stats =
  st_year :: pyval
  st_nodes :: nat
  st_edges :: nat
  st_connected_components :: nat
  st_density :: real
  st_stations_with_province :: nat
  st_unique_provinces :: nat

definition network_stats :: "pyval \<Rightarrow> station_rec list \<Rightarrow> graph \<Rightarrow> py_error + stats" where
  "network_stats yr stations Gr =
     (case density Gr of
        Inl e \<Rightarrow> Inl e
      | Inr d \<Rightarrow>
          Inr \<lparr>st_year = yr,
               st_nodes = number_of_nodes Gr,
               st_edges = number_of_edges Gr,
               st_connected_components = number_connected_components Gr,
               st_density = d,
               st_stations_with_province =
                 length (filter (\<lambda>s. province_code_a s \<noteq> PStr []) stations),
               st_unique_provinces =
                 length (remdups (map province_code_a
                           (filter (\<lambda>s. province_code_a s \<noteq> PStr []) stations)))\<rparr>)"

section \<open>Example records\<close>

definition ex_label :: utext where
  "ex_label = [0x5317, 0x4EAC, 0x3000, 0x3000, 0xFF33] @ of_ascii ''tation ''"

definition mk_station :: "pyval \<Rightarrow> label \<Rightarrow> station_row" where
  "mk_station sid nm =
     \<lparr>station_id = sid, station_name = nm, province = pstr ''Hebei'',
      latitude = PFloat 38, longitude = PFloat 114\<rparr>"

definition mk_track :: "label \<Rightarrow> label \<Rightarrow> pyval \<Rightarrow> pyval \<Rightarrow> pyval \<Rightarrow> track_row" where
  "mk_track a b len yr ty =
     \<lparr>start_station = a, end_station = b, length_t = len, year = yr, type_t = ty,
      edge_id = PNone\<rparr>"


definition mk_station_rec :: "pyval \<Rightarrow> station_rec" where
  "mk_station_rec sid =
     \<lparr>station_id_a = sid, longitude_a = PFloat 114, latitude_a = PFloat 38,
      city_id = PNone, city_name_chn = PNone, city_name_eng = PNone,
      province_code_a = PStr [], province_name_a = PStr []\<rparr>"

definition mk_edge_rec :: "pyval \<Rightarrow> pyval \<Rightarrow> pyval \<Rightarrow> pyval \<Rightarrow> edge_rec" where
  "mk_edge_rec u v eid len =
     \<lparr>source_station = u, target_station = v, edge_id_a = eid, seg_id = PInt 1,
      length_km = len\<rparr>"

section \<open>ASCII literals\<close>

lemma of_ascii_eq [simp]: "of_ascii a = of_ascii b \<longleftrightarrow> a = b"
proof -
  have "inj (of_char :: char \<Rightarrow> nat)" by (rule injI) simp
  then show ?thesis by (simp add: of_ascii_def inj_map_eq_map)
qed

lemma of_ascii_Nil [simp]: "of_ascii s = [] \<longleftrightarrow> s = []" "[] = of_ascii s \<longleftrightarrow> s = []"
  by (auto simp: of_ascii_def)

lemma pstr_eq [simp]: "pstr a = pstr b \<longleftrightarrow> a = b"
  by (simp add: pstr_def)

lemma lbl_eq [simp]: "lbl a = lbl b \<longleftrightarrow> a = b"
  by (simp add: lbl_def)

lemma lbl_not_None [simp]: "lbl a \<noteq> None" "None \<noteq> lbl a"
  by (simp_all add: lbl_def)

lemma truthy_pstr [simp]: "truthy (pstr s) \<longleftrightarrow> s \<noteq> []"
  by (simp add: pstr_def)

lemma notna_pstr [simp]: "notna (pstr s)"
  by (simp add: pstr_def notna_def)

lemma py_int_pstr [simp]: "py_int (pstr s) = py_int_str (of_ascii s)"
  by (simp add: pstr_def)

lemma isna_pstr [simp]: "\<not> isna (pstr s)"
  by (simp add: pstr_def)

section \<open>Properties of \<open>normalize_name\<close>\<close>

lemmas normalize_name_defs =
  normalize_name_def nfkc_def nfkc_char_def py_strip_def remove_punct_def py_lower_def
  lower_char_def is_space_def is_punct_def of_ascii_def lbl_def pstr_def

lemma lower_char_space: "is_space (lower_char c) = is_space c"
  by (auto simp: lower_char_def is_space_def)

lemma lower_char_punct: "is_punct (lower_char c) = is_punct c"
  by (auto simp: lower_char_def is_punct_def)

lemma lower_char_idem: "lower_char (lower_char c) = lower_char c"
  by (auto simp: lower_char_def)

lemma lower_char_blank: "lower_char 0x20 = 0x20"
  by (simp add: lower_char_def)

lemma nfkc_char_idem: "nfkc_char (nfkc_char c) = nfkc_char c"
  by (auto simp: nfkc_char_def)

lemma nfkc_char_blank: "nfkc_char 0x20 = 0x20"
  by (simp add: nfkc_char_def)

lemma nfkc_lower_fixed: "nfkc_char c = c \<Longrightarrow> nfkc_char (lower_char c) = lower_char c"
  by (auto simp: nfkc_char_def lower_char_def split: if_splits)

lemma blank_not_punct: "\<not> is_punct 0x20"
  by (simp add: is_punct_def)

lemma blank_is_space: "is_space 0x20"
  by (simp add: is_space_def)

lemma collapse_ws_lower: "collapse_ws (map lower_char s) = map lower_char (collapse_ws s)"
  by (induction s rule: collapse_ws.induct) (auto simp: lower_char_space lower_char_blank)

lemma dropWhile_space_lower:
  "dropWhile is_space (map lower_char s) = map lower_char (dropWhile is_space s)"
  by (induction s) (auto simp: lower_char_space)

lemma py_strip_lower: "py_strip (map lower_char s) = map lower_char (py_strip s)"
  by (simp add: py_strip_def dropWhile_space_lower rev_map)

lemma remove_punct_lower: "remove_punct (map lower_char s) = map lower_char (remove_punct s)"
  by (simp add: remove_punct_def filter_map comp_def lower_char_punct)

text \<open>A text is trimmed when it neither starts nor ends with whitespace.\<close>

lemma py_strip_trimmed:
  "py_strip s = [] \<or> (\<not> is_space (hd (py_strip s)) \<and> \<not> is_space (last (py_strip s)))"
proof (cases "py_strip s = []")
  case True
  then show ?thesis by simp
next
  case False
  let ?t = "dropWhile is_space (rev (dropWhile is_space s))"
  from False have t: "?t \<noteq> []" by (simp add: py_strip_def)
  then have "\<not> is_space (hd ?t)" by (rule hd_dropWhile)
  then have l: "\<not> is_space (last (py_strip s))"
    using t by (simp add: py_strip_def last_rev)
  from t have d: "dropWhile is_space s \<noteq> []"
    by (metis dropWhile.simps(1) rev_is_Nil_conv)
  then have nh: "\<not> is_space (hd (dropWhile is_space s))" by (rule hd_dropWhile)
  have "hd (py_strip s) = last ?t" using t by (simp add: py_strip_def hd_rev)
  also have "\<dots> = last (rev (dropWhile is_space s))"
  proof -
    obtain xs x where r: "rev (dropWhile is_space s) = xs @ [x]"
      using d by (metis rev_is_Nil_conv rev_exhaust)
    then have x: "x = hd (dropWhile is_space s)"
      by (metis d hd_rev last_snoc rev_rev_ident)
    with nh have "\<not> is_space x" by simp
    then have "last (dropWhile is_space (xs @ [x])) = x"
      by (induction xs) auto
    with r show ?thesis by simp
  qed
  also have "\<dots> = hd (dropWhile is_space s)" using d by (simp add: last_rev)
  finally show ?thesis using nh l by simp
qed

lemma py_strip_fix:
  assumes "s = [] \<or> (\<not> is_space (hd s) \<and> \<not> is_space (last s))"
  shows "py_strip s = s"
proof (cases "s = []")
  case True
  then show ?thesis by (simp add: py_strip_def)
next
  case False
  with assms have h: "\<not> is_space (hd s)" and l: "\<not> is_space (last s)" by auto
  from False h have 1: "dropWhile is_space s = s" by (cases s) auto
  from False l have "\<not> is_space (hd (rev s))" by (simp add: hd_rev)
  with False have 2: "dropWhile is_space (rev s) = rev s" by (cases "rev s") auto
  show ?thesis by (simp add: py_strip_def 1 2)
qed

lemma collapse_ws_Nil: "collapse_ws s = [] \<longleftrightarrow> s = []"
  by (induction s rule: collapse_ws.induct) auto

lemma collapse_ws_hd: "s \<noteq> [] \<Longrightarrow> \<not> is_space (hd s) \<Longrightarrow> hd (collapse_ws s) = hd s"
  by (induction s rule: collapse_ws.induct) auto

lemma collapse_ws_last:
  "s \<noteq> [] \<Longrightarrow> \<not> is_space (last s) \<Longrightarrow> last (collapse_ws s) = last s"
  by (induction s rule: collapse_ws.induct) (auto simp: collapse_ws_Nil)

lemma collapse_ws_Cons:
  "xs \<noteq> [] \<Longrightarrow> \<not> (is_space c \<and> is_space (hd xs)) \<Longrightarrow>
   collapse_ws (c # xs) = (if is_space c then 0x20 else c) # collapse_ws xs"
  by (cases xs) auto

lemma collapse_ws_idem: "collapse_ws (collapse_ws s) = collapse_ws s"
proof (induction s rule: collapse_ws.induct)
  case 1
  then show ?case by simp
next
  case (2 c)
  then show ?case by (simp add: blank_is_space)
next
  case (3 c d cs)
  let ?X = "collapse_ws (d # cs)"
  have X: "?X \<noteq> []" by (simp add: collapse_ws_Nil)
  show ?case
  proof (cases "is_space c")
    case False
    then have "collapse_ws (c # ?X) = c # collapse_ws ?X"
      using X by (simp add: collapse_ws_Cons)
    with False 3 show ?thesis by simp
  next
    case True
    show ?thesis
    proof (cases "is_space d")
      case True
      with \<open>is_space c\<close> 3 show ?thesis by simp
    next
      case False
      then have "hd ?X = d" using collapse_ws_hd[of "d # cs"] by simp
      with False have "collapse_ws (0x20 # ?X) = 0x20 # collapse_ws ?X"
        using X by (simp add: collapse_ws_Cons blank_is_space)
      with True False 3 show ?thesis by simp
    qed
  qed
qed

lemma set_collapse_ws: "set (collapse_ws s) \<subseteq> insert 0x20 (set s)"
  by (induction s rule: collapse_ws.induct) auto

lemma set_py_strip: "set (py_strip s) \<subseteq> set s"
proof -
  have "set (py_strip s) \<subseteq> set (rev (dropWhile is_space s))"
    unfolding py_strip_def set_rev by (auto dest: set_dropWhileD)
  also have "\<dots> \<subseteq> set s" by (auto dest: set_dropWhileD)
  finally show ?thesis .
qed

text \<open>The text that \<open>normalize_name\<close> lowers in its last step.\<close>

lemma collapsed_chars:
  assumes "c \<in> set (collapse_ws (py_strip (nfkc s)))"
  shows "c = 0x20 \<or> c \<in> nfkc_char ` set s"
proof -
  from assms set_collapse_ws have "c = 0x20 \<or> c \<in> set (py_strip (nfkc s))" by blast
  moreover have "set (py_strip (nfkc s)) \<subseteq> nfkc_char ` set s"
    using set_py_strip[of "nfkc s"] by (simp add: nfkc_def)
  ultimately show ?thesis by blast
qed

lemma collapsed_fixed:
  assumes "c \<in> set (collapse_ws (py_strip (nfkc s)))"
  shows "nfkc_char c = c"
  using collapsed_chars[OF assms] by (auto simp: nfkc_char_blank nfkc_char_idem)

lemma collapsed_trimmed:
  "collapse_ws (py_strip s) = []
   \<or> (\<not> is_space (hd (collapse_ws (py_strip s))) \<and> \<not> is_space (last (collapse_ws (py_strip s))))"
  using py_strip_trimmed[of s]
  by (auto simp: collapse_ws_Nil collapse_ws_hd collapse_ws_last)

lemma normalize_name_twice:
  "normalize_name (Some (normalize_name x)) = collapse_ws (py_strip (normalize_name x))"
proof -
  obtain z where y: "normalize_name x = map lower_char z"
    and zp: "\<forall>c \<in> set z. \<not> is_punct c" and zf: "\<forall>c \<in> set z. nfkc_char c = c"
  proof (cases x)
    case None
    then have "normalize_name x = map lower_char []" by (simp add: normalize_name_def)
    then show ?thesis using that[of "[]"] by simp
  next
    case (Some s)
    let ?z = "remove_punct (collapse_ws (py_strip (nfkc s)))"
    have "normalize_name x = map lower_char ?z"
      by (simp add: Some normalize_name_def py_lower_def)
    moreover have "\<forall>c \<in> set ?z. \<not> is_punct c" by (simp add: remove_punct_def)
    moreover have "\<forall>c \<in> set ?z. nfkc_char c = c"
      using collapsed_fixed[of _ s] by (simp add: remove_punct_def)
    ultimately show ?thesis using that by blast
  qed
  have fixed: "nfkc (map lower_char z) = map lower_char z"
    using zf by (simp add: nfkc_def nfkc_lower_fixed)
  have clean: "remove_punct (collapse_ws (py_strip z)) = collapse_ws (py_strip z)"
  proof -
    have "\<forall>c \<in> set (collapse_ws (py_strip z)). \<not> is_punct c"
      using zp set_collapse_ws[of "py_strip z"] set_py_strip[of z] blank_not_punct by auto
    then show ?thesis by (simp add: remove_punct_def)
  qed
  have "normalize_name (Some (map lower_char z))
        = map lower_char (remove_punct (collapse_ws (py_strip (map lower_char z))))"
    by (simp add: normalize_name_def py_lower_def fixed)
  also have "\<dots> = map lower_char (map lower_char (remove_punct (collapse_ws (py_strip z))))"
    by (simp add: py_strip_lower collapse_ws_lower remove_punct_lower)
  also have "\<dots> = map lower_char (collapse_ws (py_strip z))"
    by (simp add: clean lower_char_idem)
  also have "\<dots> = collapse_ws (py_strip (map lower_char z))"
    by (simp add: py_strip_lower collapse_ws_lower)
  finally show ?thesis by (simp add: y)
qed

lemma normalize_name_idem_no_punct:
  assumes "\<forall>c \<in> set (nfkc s). \<not> is_punct c"
  shows "normalize_name (Some (normalize_name (Some s))) = normalize_name (Some s)"
proof -
  let ?u = "collapse_ws (py_strip (nfkc s))"
  have "\<forall>c \<in> set ?u. \<not> is_punct c"
    using assms set_collapse_ws[of "py_strip (nfkc s)"] set_py_strip[of "nfkc s"] blank_not_punct
    by auto
  then have n1: "normalize_name (Some s) = map lower_char ?u"
    by (simp add: normalize_name_def py_lower_def remove_punct_def)
  have "collapse_ws (py_strip (map lower_char ?u)) = map lower_char (collapse_ws (py_strip ?u))"
    by (simp add: py_strip_lower collapse_ws_lower)
  also have "\<dots> = map lower_char ?u"
    using collapsed_trimmed[of "nfkc s"] by (simp add: py_strip_fix collapse_ws_idem)
  finally have "collapse_ws (py_strip (normalize_name (Some s))) = normalize_name (Some s)"
    by (simp only: n1)
  then show ?thesis by (simp only: normalize_name_twice)
qed

text \<open>
  Claim C3, as the code has it, for a missing label and for every label of supported
  characters: a second pass of \<open>normalize_name\<close> strips the result of the first pass and
  collapses its whitespace, and does nothing else; and \<open>normalize_name\<close> is idempotent on
  the missing label and on every label whose NFKC form holds none of the punctuation
  characters that the function deletes.
\<close>

theorem C3_second_pass_trims:
  assumes "x = None \<or> (\<exists>s. x = Some s \<and> supported_text s)"
  shows "normalize_name (Some (normalize_name x)) = collapse_ws (py_strip (normalize_name x))
         \<and> ((\<forall>s. x = Some s \<longrightarrow> (\<forall>c \<in> set (nfkc s). \<not> is_punct c))
              \<longrightarrow> normalize_name (Some (normalize_name x)) = normalize_name x)"
proof (intro conjI impI)
  show "normalize_name (Some (normalize_name x)) = collapse_ws (py_strip (normalize_name x))"
    by (rule normalize_name_twice)
next
  assume np: "\<forall>s. x = Some s \<longrightarrow> (\<forall>c \<in> set (nfkc s). \<not> is_punct c)"
  show "normalize_name (Some (normalize_name x)) = normalize_name x"
  proof (cases x)
    case None
    then show ?thesis
      by (simp add: normalize_name_def nfkc_def py_strip_def remove_punct_def py_lower_def)
  next
    case (Some s)
    with np have "\<forall>c \<in> set (nfkc s). \<not> is_punct c" by simp
    then show ?thesis unfolding Some by (rule normalize_name_idem_no_punct)
  qed
qed

text \<open>
  Witness for C3: the label of the ideographs U+5317 U+4EAC, two ideographic spaces, a
  fullwidth S and \<open>tation\<close> with a blank at its end has no punctuation, and its key, the
  two ideographs, one blank and \<open>station\<close>, is a fixed point; so is the key of the missing
  label; for \<open>a - b\<close> the second pass is the trimming of the first.
\<close>

theorem C3_second_pass_trims_witness:
  "supported_text ex_label
   \<and> normalize_name (Some ex_label) = [0x5317, 0x4EAC, 0x20] @ of_ascii ''station''
   \<and> normalize_name (Some (normalize_name (Some ex_label))) = normalize_name (Some ex_label)
   \<and> normalize_name (Some (normalize_name None)) = normalize_name None
   \<and> normalize_name (Some (normalize_name (lbl ''a - b'')))
       = collapse_ws (py_strip (normalize_name (lbl ''a - b'')))"
proof -
  have a1: "supported_text ex_label"
    by (simp add: supported_text_def supported_def is_space_def ex_label_def of_ascii_def)
  have a2: "\<exists>s. lbl ''a - b'' = Some s \<and> supported_text s"
    by (simp add: supported_text_def supported_def of_ascii_def lbl_def)
  have v: "normalize_name (Some ex_label) = [0x5317, 0x4EAC, 0x20] @ of_ascii ''station''"
    by (simp add: normalize_name_defs ex_label_def)
  have p1: "\<forall>s. Some ex_label = Some s \<longrightarrow> (\<forall>c \<in> set (nfkc s). \<not> is_punct c)"
    by (simp add: nfkc_def nfkc_char_def is_punct_def ex_label_def of_ascii_def)
  have p2: "\<forall>s. (None :: label) = Some s \<longrightarrow> (\<forall>c \<in> set (nfkc s). \<not> is_punct c)"
    by simp
  from C3_second_pass_trims[of "Some ex_label"] a1 p1
  have 1: "normalize_name (Some (normalize_name (Some ex_label))) = normalize_name (Some ex_label)"
    by blast
  from C3_second_pass_trims[of None] p2
  have 2: "normalize_name (Some (normalize_name None)) = normalize_name None" by blast
  from C3_second_pass_trims[of "lbl ''a - b''"] a2
  have 3: "normalize_name (Some (normalize_name (lbl ''a - b'')))
       = collapse_ws (py_strip (normalize_name (lbl ''a - b'')))" by blast
  from a1 v 1 2 3 show ?thesis by (intro conjI)
qed

text \<open>
  Counterexample to C3 as stated: the label \<open>a - b\<close> is normalized to \<open>a  b\<close>, with two
  blanks, since the dash goes after the whitespace has been collapsed; a second pass
  collapses the two blanks and gives \<open>a b\<close>. The same happens to the ideographs U+5317
  and U+4EAC with an ideographic full stop between blanks.
\<close>

theorem C3_counterexample:
  "normalize_name (lbl ''a - b'') = of_ascii ''a  b''
   \<and> normalize_name (Some (normalize_name (lbl ''a - b''))) = of_ascii ''a b''
   \<and> normalize_name (Some [0x5317, 0x20, 0x3002, 0x20, 0x4EAC]) = [0x5317, 0x20, 0x20, 0x4EAC]
   \<and> normalize_name (Some (normalize_name (Some [0x5317, 0x20, 0x3002, 0x20, 0x4EAC])))
       = [0x5317, 0x20, 0x4EAC]"
  by (simp add: normalize_name_defs)

section \<open>Properties of the name index\<close>

lemma build_index_fold:
  "fold (\<lambda>row name_to_id. name_to_id(normalize_name (station_name row) \<mapsto> station_id row)) rows m k
   = (if filter (\<lambda>r. normalize_name (station_name r) = k) rows = [] then m k
      else Some (station_id (last (filter (\<lambda>r. normalize_name (station_name r) = k) rows))))"
  by (induction rows rule: rev_induct) auto

lemma build_index_lookup:
  "build_index rows k
   = (if filter (\<lambda>r. normalize_name (station_name r) = k) rows = [] then None
      else Some (station_id (last (filter (\<lambda>r. normalize_name (station_name r) = k) rows))))"
  unfolding build_index_def by (simp add: build_index_fold)

text \<open>
  Claim C4, as the code has it: the index gives the empty key no special treatment. A
  station whose name normalizes to the empty key is stored under it, and an endpoint
  label that normalizes to the empty key is looked up like any other: it resolves to the
  identifier of the last station whose name normalizes to the empty key, and to \<open>None\<close>
  only when there is no such station.
\<close>

theorem C4_empty_key_is_matched:
  assumes "normalize_name l = []"
  shows "dict_get (build_index stations_df) (normalize_name l)
         = (if filter (\<lambda>r. normalize_name (station_name r) = []) stations_df = [] then PNone
            else station_id (last (filter (\<lambda>r. normalize_name (station_name r) = []) stations_df)))"
  using assms by (simp add: dict_get_def build_index_lookup)

text \<open>
  Witness for C4: the label \<open>''--''\<close> normalizes to the empty key and resolves to the
  station \<open>S1\<close>, whose name is missing.
\<close>

theorem C4_empty_key_is_matched_witness:
  "normalize_name (lbl ''--'') = []
   \<and> dict_get (build_index [mk_station (pstr ''S1'') None, mk_station (pstr ''S2'') (lbl ''Beta'')])
       (normalize_name (lbl ''--'')) = pstr ''S1''"
proof -
  have e: "normalize_name (lbl ''--'') = []"
    by (simp add: normalize_name_defs)
  have n: "normalize_name None = []" by (simp add: normalize_name_def)
  have b: "normalize_name (lbl ''Beta'') \<noteq> []"
    by (simp add: normalize_name_defs)
  show ?thesis
    using C4_empty_key_is_matched[OF e,
        of "[mk_station (pstr ''S1'') None, mk_station (pstr ''S2'') (lbl ''Beta'')]"] e
    by (simp add: mk_station_def n b)
qed

text \<open>
  Counterexample to C4 as stated: station \<open>S1\<close> has no name, the track starts at the label
  \<open>''--''\<close>; both normalize to the empty key, the endpoint resolves to \<open>S1\<close>, and the
  build adds the edge from \<open>S1\<close> to \<open>S2\<close> and reports no missing station.
\<close>

theorem C4_counterexample:
  "normalize_name None = [] \<and> normalize_name (lbl ''--'') = []
   \<and> outcome (build_network [mk_station (pstr ''S1'') None, mk_station (pstr ''S2'') (lbl ''Beta'')]
                [mk_track (lbl ''--'') (lbl ''Beta'') (PFloat 10) (PInt 1990) (pstr ''road'')])
     = Inr (\<lparr>nodes = [(pstr ''S1'', Some \<lparr>n_name = None, n_province = pstr ''Hebei'',
                                          n_latitude = PFloat 38, n_longitude = PFloat 114\<rparr>),
                       (pstr ''S2'', Some \<lparr>n_name = lbl ''Beta'', n_province = pstr ''Hebei'',
                                          n_latitude = PFloat 38, n_longitude = PFloat 114\<rparr>)],
             edges = [\<lparr>e_src = pstr ''S1'', e_dst = pstr ''S2'', e_key = 0,
                       e_length = PFloat 10, e_year = Some 1990, e_year_raw = PInt 1990,
                       e_type = pstr ''road'', e_edge_id = PNone\<rparr>]\<rparr>, 1, [])"
proof -
  have e: "normalize_name (lbl ''--'') = []"
    by (simp add: normalize_name_defs)
  have n: "normalize_name None = []" by (simp add: normalize_name_def)
  have b: "normalize_name (lbl ''Beta'') = of_ascii ''beta''"
    by (simp add: normalize_name_defs)
  show ?thesis
    by (simp add: e n b outcome_def build_network_def build_index_def add_nodes_def add_node_def
        empty_graph_def mk_station_def mk_track_def add_track_def dict_get_def year_int_of_def
        notna_def add_edge_def ensure_node_def new_edge_key_def type_standardized_def
        type_mapping_def pstr_def Let_def)
qed

text \<open>
  Claim C5, as the code has it: when two station records normalize to the same key, the
  later one wins in the index, and the earlier one leaves no trace: the index is the one
  that the records without the earlier one give. No collision is counted or listed.
\<close>

theorem C5_later_wins_no_record:
  assumes "normalize_name (station_name r1) = normalize_name (station_name r2)"
    and "\<forall>r \<in> set zs. normalize_name (station_name r) \<noteq> normalize_name (station_name r2)"
  shows "build_index (xs @ [r1] @ ys @ [r2] @ zs) (normalize_name (station_name r2))
           = Some (station_id r2)
         \<and> build_index (xs @ [r1] @ ys @ [r2] @ zs) = build_index (xs @ ys @ [r2] @ zs)"
proof
  let ?k = "normalize_name (station_name r2)"
  have z: "filter (\<lambda>r. normalize_name (station_name r) = ?k) zs = []"
    using assms(2) by (auto simp: filter_empty_conv)
  show "build_index (xs @ [r1] @ ys @ [r2] @ zs) ?k = Some (station_id r2)"
    by (simp add: build_index_lookup assms(1) z)
  show "build_index (xs @ [r1] @ ys @ [r2] @ zs) = build_index (xs @ ys @ [r2] @ zs)"
  proof
    fix k
    show "build_index (xs @ [r1] @ ys @ [r2] @ zs) k = build_index (xs @ ys @ [r2] @ zs) k"
    proof (cases "k = ?k")
      case True
      then show ?thesis
        by (simp add: build_index_lookup assms(1))
    next
      case False
      then show ?thesis
        by (simp add: build_index_lookup assms(1))
    qed
  qed
qed

text \<open>
  Witness for C5: \<open>Alpha\<close> and \<open>alpha\<close> followed by a space normalize to the same key; the
  identifiers \<open>S1\<close> and \<open>S2\<close> differ, and \<open>S2\<close> is the one the index holds.
\<close>

theorem C5_later_wins_no_record_witness:
  "normalize_name (station_name (mk_station (pstr ''S1'') (lbl ''Alpha'')))
     = normalize_name (station_name (mk_station (pstr ''S2'') (lbl ''alpha '')))
   \<and> station_id (mk_station (pstr ''S1'') (lbl ''Alpha''))
       \<noteq> station_id (mk_station (pstr ''S2'') (lbl ''alpha ''))
   \<and> build_index [mk_station (pstr ''S1'') (lbl ''Alpha''),
                   mk_station (pstr ''S2'') (lbl ''alpha '')]
        (normalize_name (station_name (mk_station (pstr ''S2'') (lbl ''alpha ''))))
       = Some (pstr ''S2'')
   \<and> build_index [mk_station (pstr ''S1'') (lbl ''Alpha''),
                   mk_station (pstr ''S2'') (lbl ''alpha '')]
       = build_index [mk_station (pstr ''S2'') (lbl ''alpha '')]"
proof -
  let ?r1 = "mk_station (pstr ''S1'') (lbl ''Alpha'')"
  let ?r2 = "mk_station (pstr ''S2'') (lbl ''alpha '')"
  have a: "normalize_name (lbl ''Alpha'') = of_ascii ''alpha''"
    by (simp add: normalize_name_defs)
  have b: "normalize_name (lbl ''alpha '') = of_ascii ''alpha''"
    by (simp add: normalize_name_defs)
  have h1: "normalize_name (station_name ?r1) = normalize_name (station_name ?r2)"
    by (simp add: mk_station_def a b)
  have h2: "\<forall>r \<in> set []. normalize_name (station_name r) \<noteq> normalize_name (station_name ?r2)"
    by simp
  have ids: "station_id ?r1 \<noteq> station_id ?r2" by (simp add: mk_station_def)
  note w = C5_later_wins_no_record[OF h1 h2, of "[]" "[]", unfolded append.simps]
  have s2: "station_id ?r2 = pstr ''S2''" by (simp add: mk_station_def)
  from w[THEN conjunct1] s2
  have w1: "build_index [?r1, ?r2] (normalize_name (station_name ?r2)) = Some (pstr ''S2'')"
    by simp
  from h1 ids w1 w[THEN conjunct2] show ?thesis by blast
qed

text \<open>
  Counterexample to C5 as stated: two distinct identifiers under one key give the very
  index that the later record gives alone, so the build keeps no record of the collision.
\<close>

theorem C5_counterexample:
  "station_id (mk_station (pstr ''S1'') (lbl ''Alpha'')) \<noteq> station_id (mk_station (pstr ''S2'') (lbl ''alpha ''))
   \<and> normalize_name (station_name (mk_station (pstr ''S1'') (lbl ''Alpha''))) = of_ascii ''alpha''
   \<and> normalize_name (station_name (mk_station (pstr ''S2'') (lbl ''alpha ''))) = of_ascii ''alpha''
   \<and> build_index [mk_station (pstr ''S1'') (lbl ''Alpha''), mk_station (pstr ''S2'') (lbl ''alpha '')]
     = build_index [mk_station (pstr ''S2'') (lbl ''alpha '')]"
proof -
  have a: "normalize_name (lbl ''Alpha'') = of_ascii ''alpha''"
    by (simp add: normalize_name_defs)
  have b: "normalize_name (lbl ''alpha '') = of_ascii ''alpha''"
    by (simp add: normalize_name_defs)
  show ?thesis
    by (simp add: mk_station_def a b build_index_def)
qed

section \<open>Properties of the network builder\<close>

lemma add_tracks_append:
  "add_tracks st (xs @ ys)
   = (case add_tracks st xs of Inl e \<Rightarrow> Inl e | Inr st' \<Rightarrow> add_tracks st' ys)"
  by (induction xs arbitrary: st) (auto split: sum.splits)

lemma add_track_index: "add_track st row = Inr st' \<Longrightarrow> name_to_id st' = name_to_id st"
  by (auto simp: add_track_def Let_def split: if_splits sum.splits)

lemma add_tracks_index: "add_tracks st rows = Inr st' \<Longrightarrow> name_to_id st' = name_to_id st"
  by (induction rows arbitrary: st) (auto split: sum.splits dest: add_track_index)

lemma add_track_edges_grow:
  "add_track st row = Inr st' \<Longrightarrow> \<exists>es. edges (G st') = edges (G st) @ es"
  by (auto simp: add_track_def Let_def add_edge_def split: if_splits sum.splits)

lemma add_tracks_edges_grow:
  "add_tracks st rows = Inr st' \<Longrightarrow> \<exists>es. edges (G st') = edges (G st) @ es"
proof (induction rows arbitrary: st)
  case Nil
  then show ?case by simp
next
  case (Cons row rows)
  then obtain s1 where 1: "add_track st row = Inr s1" and 2: "add_tracks s1 rows = Inr st'"
    by (auto split: sum.splits)
  from add_track_edges_grow[OF 1] Cons.IH[OF 2] show ?case by auto
qed

lemma add_track_resolved:
  assumes "add_track st row = Inr st'"
    and "u = dict_get (name_to_id st) (normalize_name (start_station row))"
    and "v = dict_get (name_to_id st) (normalize_name (end_station row))"
    and "truthy u" and "truthy v"
  shows "\<exists>yr. year_int_of (year row) = Inr yr
            \<and> edges (G st') = edges (G st) @ [track_edge u v (new_edge_key (G st) u v) row yr]"
  using assms
  by (auto simp: add_track_def Let_def add_edge_def track_edge_def split: if_splits sum.splits)

lemma build_network_append:
  "build_network stations_df (xs @ ys)
   = (case build_network stations_df xs of Inl e \<Rightarrow> Inl e | Inr st \<Rightarrow> add_tracks st ys)"
  by (simp add: build_network_def add_tracks_append)

lemma build_network_index:
  "build_network stations_df rows = Inr st \<Longrightarrow> name_to_id st = build_index stations_df"
  by (auto simp: build_network_def dest: add_tracks_index)

lemma norm_alpha: "normalize_name (lbl ''Alpha'') = of_ascii ''alpha''"
  by (simp add: normalize_name_defs)

lemma norm_beta: "normalize_name (lbl ''Beta'') = of_ascii ''beta''"
  by (simp add: normalize_name_defs)

lemmas py_int_str_defs =
  py_int_str_def int_strip_def int_space_def is_space_def is_digit_def digit_val_def
  digits_value_def of_ascii_def

lemma py_int_str_abc: "py_int_str (of_ascii ''abc'') = Inl ValueError"
  by (simp add: py_int_str_defs)

lemma py_int_str_1990s: "py_int_str (of_ascii ''1990s'') = Inl ValueError"
  by (simp add: py_int_str_defs)

lemma ex_index_alpha:
  "dict_get (build_index [mk_station (pstr ''S1'') (lbl ''Alpha''),
                          mk_station (pstr ''S2'') (lbl ''Beta'')]) (of_ascii ''alpha'') = pstr ''S1''"
  by (simp add: build_index_def mk_station_def dict_get_def norm_alpha norm_beta)

lemma ex_index_beta:
  "dict_get (build_index [mk_station (pstr ''S1'') (lbl ''Alpha''),
                          mk_station (pstr ''S2'') (lbl ''Beta'')]) (of_ascii ''beta'') = pstr ''S2''"
  by (simp add: build_index_def mk_station_def dict_get_def norm_alpha norm_beta)

text \<open>
  Claim C9: an endpoint whose label is found in the index with a falsy identifier (0, the
  empty string) is handled as an endpoint that is not found: the pass adds no edge and
  counts none, it appends the raw label to \<open>missing_stations\<close>, and graph and
  diagnostics are what they would be with the key absent from the index.
\<close>

theorem C9_falsy_identifier_is_missing:
  assumes "(k = normalize_name (start_station row) \<and> l = start_station row)
         \<or> (k = normalize_name (end_station row) \<and> l = end_station row)"
    and "name_to_id st k = Some sid"
    and "\<not> truthy sid"
  shows "(\<exists>ms. add_track st row = Inr (st\<lparr>missing_stations := missing_stations st @ ms\<rparr>)
               \<and> l \<in> set ms)
         \<and> outcome (add_track st row)
           = outcome (add_track (st\<lparr>name_to_id := (name_to_id st)(k := None)\<rparr>) row)"
  using assms
  by (auto simp: add_track_def Let_def dict_get_def outcome_def)

text \<open>
  Witness for C9: station \<open>Alpha\<close> has the identifier 0; the track from \<open>Alpha\<close> to
  \<open>Beta\<close> is skipped and \<open>Alpha\<close> is reported missing.
\<close>

theorem C9_falsy_identifier_is_missing_witness:
  "build_index [mk_station (PInt 0) (lbl ''Alpha''), mk_station (PInt 7) (lbl ''Beta'')]
     (normalize_name (lbl ''Alpha'')) = Some (PInt 0)
   \<and> \<not> truthy (PInt 0)
   \<and> outcome (build_network [mk_station (PInt 0) (lbl ''Alpha''), mk_station (PInt 7) (lbl ''Beta'')]
                [mk_track (lbl ''Alpha'') (lbl ''Beta'') (PFloat 10) (PInt 1990) (pstr ''road'')])
     = Inr (add_nodes [mk_station (PInt 0) (lbl ''Alpha''), mk_station (PInt 7) (lbl ''Beta'')]
              empty_graph, 0, [lbl ''Alpha''])"
proof -
  let ?S = "[mk_station (PInt 0) (lbl ''Alpha''), mk_station (PInt 7) (lbl ''Beta'')]"
  let ?row = "mk_track (lbl ''Alpha'') (lbl ''Beta'') (PFloat 10) (PInt 1990) (pstr ''road'')"
  let ?st = "\<lparr>name_to_id = build_index ?S, G = add_nodes ?S empty_graph,
              edges_added = 0, missing_stations = []\<rparr>"
  have a: "normalize_name (lbl ''Alpha'') = of_ascii ''alpha''"
    by (simp add: normalize_name_defs)
  have b: "normalize_name (lbl ''Beta'') = of_ascii ''beta''"
    by (simp add: normalize_name_defs)
  have k: "normalize_name (lbl ''Alpha'') = normalize_name (start_station ?row)
           \<and> lbl ''Alpha'' = start_station ?row"
    by (simp add: mk_track_def)
  have h: "name_to_id ?st (normalize_name (lbl ''Alpha'')) = Some (PInt 0)"
    by (simp add: a b build_index_def mk_station_def)
  have f: "\<not> truthy (PInt 0)" by simp
  from C9_falsy_identifier_is_missing[OF disjI1[OF k] h f]
  obtain ms where r: "add_track ?st ?row = Inr (?st\<lparr>missing_stations := missing_stations ?st @ ms\<rparr>)"
    and m: "lbl ''Alpha'' \<in> set ms"
    by blast
  have e: "dict_get (build_index ?S) (of_ascii ''beta'') = PInt 7"
    by (simp add: a b build_index_def mk_station_def dict_get_def)
  have z: "dict_get (build_index ?S) (of_ascii ''alpha'') = PInt 0"
    by (simp add: a b build_index_def mk_station_def dict_get_def)
  have "add_track ?st ?row = Inr (?st\<lparr>missing_stations := [lbl ''Alpha'']\<rparr>)"
    by (simp add: add_track_def Let_def mk_track_def a b e z)
  with r have "outcome (build_network ?S [?row])
               = Inr (add_nodes ?S empty_graph, 0, [lbl ''Alpha''])"
    by (simp add: build_network_def outcome_def)
  with h f show ?thesis by simp
qed

text \<open>
  Claim C6, as the code has it: a track record whose endpoints both resolve to truthy
  identifiers and whose year is present but not convertible by \<open>int\<close> stops the whole
  build with that error (the handler of \<open>main\<close> then returns \<open>False\<close>), whatever
  records follow; the year is not taken as missing and the failure is not confined to
  the record.
\<close>

theorem C6_bad_year_aborts_build:
  assumes "build_network stations_df pre = Inr st"
    and "truthy (dict_get (build_index stations_df) (normalize_name (start_station row)))"
    and "truthy (dict_get (build_index stations_df) (normalize_name (end_station row)))"
    and "notna (year row)"
    and "py_int (year row) = Inl e"
  shows "build_network stations_df (pre @ row # rest) = Inl e"
proof -
  have "name_to_id st = build_index stations_df"
    using assms(1) by (rule build_network_index)
  with assms(2-5) have "add_track st row = Inl e"
    by (simp add: add_track_def Let_def year_int_of_def)
  with assms(1) show ?thesis
    by (simp add: build_network_append)
qed


text \<open>
  Witness for C6: the second of three tracks has the year \<open>abc\<close>; the build ends with
  \<open>ValueError\<close> although the first and the third track are fine.
\<close>

theorem C6_bad_year_aborts_build_witness:
  "notna (pstr ''abc'') \<and> py_int (pstr ''abc'') = Inl ValueError
   \<and> build_network [mk_station (pstr ''S1'') (lbl ''Alpha''), mk_station (pstr ''S2'') (lbl ''Beta'')]
        [mk_track (lbl ''Beta'') (lbl ''Alpha'') (PFloat 3) PNaN (pstr ''road''),
         mk_track (lbl ''Alpha'') (lbl ''Beta'') (PFloat 10) (pstr ''abc'') (pstr ''road''),
         mk_track (lbl ''Alpha'') (lbl ''Beta'') (PFloat 12) (PInt 1990) (pstr ''road'')]
      = Inl ValueError"
proof -
  let ?S = "[mk_station (pstr ''S1'') (lbl ''Alpha''), mk_station (pstr ''S2'') (lbl ''Beta'')]"
  let ?pre = "[mk_track (lbl ''Beta'') (lbl ''Alpha'') (PFloat 3) PNaN (pstr ''road'')]"
  let ?row = "mk_track (lbl ''Alpha'') (lbl ''Beta'') (PFloat 10) (pstr ''abc'') (pstr ''road'')"
  let ?rest = "[mk_track (lbl ''Alpha'') (lbl ''Beta'') (PFloat 12) (PInt 1990) (pstr ''road'')]"
  obtain st where pre: "build_network ?S ?pre = Inr st"
    by (simp add: build_network_def add_track_def Let_def mk_track_def norm_alpha norm_beta
        ex_index_alpha ex_index_beta year_int_of_def notna_def)
  have s: "truthy (dict_get (build_index ?S) (normalize_name (start_station ?row)))"
    by (simp add: mk_track_def norm_alpha ex_index_alpha)
  have t: "truthy (dict_get (build_index ?S) (normalize_name (end_station ?row)))"
    by (simp add: mk_track_def norm_beta ex_index_beta)
  have n: "notna (year ?row)" by (simp add: mk_track_def notna_def)
  have i: "py_int (year ?row) = Inl ValueError" by (simp add: mk_track_def py_int_str_abc)
  from C6_bad_year_aborts_build[OF pre s t n i, of ?rest]
  show ?thesis by (simp add: notna_def py_int_str_abc)
qed

text \<open>
  Counterexample to C6 as stated: the year \<open>1990s\<close> is present and not numeric; the
  build does not go on with an unknown year but ends with \<open>ValueError\<close>, and the second
  track is never added.
\<close>

theorem C6_counterexample:
  "notna (pstr ''1990s'') \<and> py_int (pstr ''1990s'') = Inl ValueError
   \<and> build_network [mk_station (pstr ''S1'') (lbl ''Alpha''), mk_station (pstr ''S2'') (lbl ''Beta'')]
        [mk_track (lbl ''Alpha'') (lbl ''Beta'') (PFloat 10) (pstr ''1990s'') (pstr ''road''),
         mk_track (lbl ''Beta'') (lbl ''Alpha'') (PFloat 12) (PInt 1991) (pstr ''road'')]
      = Inl ValueError"
  by (simp add: build_network_def add_track_def Let_def mk_track_def norm_alpha norm_beta
      ex_index_alpha ex_index_beta year_int_of_def notna_def py_int_str_1990s)

section \<open>The conversion of text to an integer\<close>

text \<open>
  \<open>int\<close> on text reads the decimal digits of Unicode, here the fullwidth ones, allows an
  underscore between two digits and strips the whitespace of Unicode around the number;
  the separators U+001C to U+001F, which \<open>str.strip\<close> removes, are not stripped; a
  decimal point is refused.
\<close>

lemma py_int_str_fullwidth: "py_int_str [0xFF11, 0xFF19, 0x39, 0x30] = Inr 1990"
  by (simp add: py_int_str_defs)

lemma py_int_str_underscore: "py_int_str (of_ascii '' -19_90 '') = Inr (- 1990)"
  by (simp add: py_int_str_defs)

lemma py_int_str_separator: "py_int_str [0x1C, 0x35] = Inl ValueError"
  by (simp add: py_int_str_defs)

lemma py_int_str_wide_space: "py_int_str [0x3000, 0x35, 0xA0] = Inr 5"
  by (simp add: py_int_str_defs)

lemma py_int_str_decimal_point: "py_int_str (of_ascii ''1990.0'') = Inl ValueError"
  by (simp add: py_int_str_defs)

section \<open>Properties of the nearest-city assignment\<close>

subsection \<open>NaN as an operand\<close>

lemma inf_of_sign_0 [simp]: "inf_of_sign 0 = NaN"
  by (simp add: inf_of_sign_def)

lemma fl_add_NaN [simp]: "fl_add ops x NaN = NaN" "fl_add ops NaN y = NaN"
  by (cases x) simp_all

lemma fl_sub_NaN [simp]: "fl_sub ops x NaN = NaN" "fl_sub ops NaN y = NaN"
  by (cases x) simp_all

lemma fl_mul_NaN [simp]: "fl_mul ops x NaN = NaN" "fl_mul ops NaN y = NaN"
  by (cases x; simp) (cases y; simp)

lemma fl_div_NaN [simp]: "fl_div ops x NaN = NaN" "fl_div ops NaN y = NaN"
  by (cases x; simp) (cases y; simp)

lemma fl_square_NaN [simp]: "fl_square ops NaN = NaN"
  by (simp add: fl_square_def)

lemma haversine_NaN_lon: "haversine ops NaN lat1 lon2 lat2 = NaN"
  by (simp add: haversine_def Let_def)

lemma haversine_NaN_lat: "haversine ops lon1 NaN lon2 lat2 = NaN"
  by (simp add: haversine_def Let_def)

subsection \<open>The distance without rounding\<close>


lemma haversine_exact_meridian:
  assumes "0 \<le> d" and "d \<le> 180"
  shows "haversine exact_ops (Fin 0) (Fin 0) (Fin 0) (Fin d) = Fin (6371 * (d * pi / 180))"
proof -
  let ?x = "d * pi / 180 / 2"
  have x0: "0 \<le> ?x" using assms by simp
  have "d * pi \<le> 180 * pi" using assms by simp
  then have x1: "?x \<le> pi / 2" by simp
  have "?x \<le> pi" using x1 pi_ge_zero by linarith
  with x0 have sp: "0 \<le> sin ?x" by (rule sin_ge_zero)
  have sq: "sqrt (sin ?x * sin ?x) = sin ?x" using sp by simp
  have "- (pi / 2) \<le> ?x" using x0 pi_ge_zero by linarith
  then have as: "arcsin (sin ?x) = ?x" using x1 by (rule arcsin_sin)
  have s1: "sin ?x \<le> 1" and s2: "- 1 \<le> sin ?x" by simp_all
  have nn: "\<not> sin ?x * sin ?x < 0" by (simp add: not_less)
  have "haversine exact_ops (Fin 0) (Fin 0) (Fin 0) (Fin d)
        = Fin (6371 * (2 * arcsin (sqrt (sin ?x * sin ?x))))"
    using s1 s2 nn sq by (simp add: haversine_def exact_ops_def fl_square_def Let_def)
  also have "\<dots> = Fin (6371 * (2 * ?x))" by (simp only: sq as)
  also have "\<dots> = Fin (6371 * (d * pi / 180))" by simp
  finally show ?thesis .
qed

text \<open>
  Two points on the parallel of 60 degrees north, 180 degrees of longitude apart: the
  great circle between them passes over the pole and is a sixth of the circumference.
\<close>

lemma haversine_exact_parallel:
  "haversine exact_ops (Fin 0) (Fin 60) (Fin 180) (Fin 60) = Fin (6371 * (pi / 3))"
proof -
  have "arcsin (sin (pi / 6)) = pi / 6" by (rule arcsin_sin) (use pi_ge_zero in linarith)+
  then have a: "arcsin (1 / 2) = pi / 6" by (simp add: sin_30)
  have "sqrt ((1 / 2)\<^sup>2) = 1 / 2" by (simp only: real_sqrt_abs)
  then have q: "sqrt (1 / 4) = 1 / 2" by (simp add: power2_eq_square)
  show ?thesis
    by (simp add: haversine_def exact_ops_def fl_square_def Let_def cos_60 q a)
qed

subsection \<open>The order of the floats and \<open>np.argmin\<close>\<close>



lemma fl_le_NaN [simp]: "\<not> fl_le x NaN" "\<not> fl_le NaN y"
  by (cases x) simp_all




subsection \<open>The assignment of a row\<close>

text \<open>
  A coordinate that \<open>float\<close> rejects, a text that is no number or the value \<open>None\<close>,
  gives the row the method \<open>no_coords\<close> and leaves its other columns as they were.
\<close>

lemma py_float_errors:
  "py_float float_of_str v = Inl x \<Longrightarrow> x = ValueError \<or> x = TypeError"
  by (cases v) (auto split: option.splits)

lemma assign_station_rejected:
  assumes "py_float float_of_str (longitude_g row) = Inl e
           \<or> py_float float_of_str (latitude_g row) = Inl e"
  shows "assign_station ops float_of_str cities row
         = Inr (row\<lparr>prov_assign_method := of_ascii ''no_coords''\<rparr>)"
proof -
  have "\<exists>x. station_coords float_of_str row = Inl x \<and> (x = ValueError \<or> x = TypeError)"
  proof (cases "py_float float_of_str (longitude_g row)")
    case (Inl a)
    then show ?thesis
      using py_float_errors[OF Inl] by (simp add: station_coords_def)
  next
    case (Inr lon)
    with assms have l: "py_float float_of_str (latitude_g row) = Inl e" by simp
    then show ?thesis
      using py_float_errors[OF l] Inr by (simp add: station_coords_def)
  qed
  then obtain x where "station_coords float_of_str row = Inl x"
    and "x = ValueError \<or> x = TypeError"
    by blast
  then show ?thesis by (auto simp: assign_station_def)
qed

text \<open>
  Claim C1 at a failing input: a station whose longitude cell is missing. pandas gives a
  missing cell as NaN, \<open>float\<close> of NaN raises nothing, every distance is NaN whatever the
  arithmetic of doubles gives on finite operands, and \<open>np.argmin\<close> answers the index 0:
  the row is assigned to the first city, with the method \<open>assigned_by_nearest_city\<close> and
  the distance NaN, instead of \<open>no_coords\<close>. With an empty gazetteer the same row makes
  \<open>np.argmin\<close> raise \<open>ValueError\<close>, which nothing catches.
\<close>

theorem C1_missing_coordinate_is_assigned:
  "assign_station ops float_of_str
     [\<lparr>Name_EN = pstr ''Beijing'', Long = Fin 116.4, Lat = Fin 39.9, Province = pstr ''BEIJING''\<rparr>,
      \<lparr>Name_EN = pstr ''Tianjin'', Long = Fin 117.2, Lat = Fin 39.1, Province = pstr ''TIANJIN''\<rparr>]
     (prepare_row (PInt 1) PNaN (PFloat 39.1))
   = Inr ((prepare_row (PInt 1) PNaN (PFloat 39.1))
            \<lparr>province_code := pstr ''BEIJING'',
             province_name := PStr [0x5317, 0x4EAC, 0x5E02],
             prov_assign_method := of_ascii ''assigned_by_nearest_city'',
             nearest_city := pstr ''Beijing'', distance_to_city_km := NaN\<rparr>)
   \<and> assign_station ops float_of_str [] (prepare_row (PInt 1) PNaN (PFloat 39.1))
     = Inl ValueError"
  by (simp add: assign_station_def station_coords_def prepare_row_def np_argmin_def
      dists_to_def haversine_NaN_lon province_cn_def PROVINCE_NAME_MAP_def pstr_def)




section \<open>Properties of the simple graph and of its statistics\<close>

subsection \<open>The equality of keys\<close>

lemma py_eq_sym: "py_eq a b \<Longrightarrow> py_eq b a"
  unfolding py_eq_def by metis

lemma py_eq_trans: "py_eq a b \<Longrightarrow> py_eq b c \<Longrightarrow> py_eq a c"
  unfolding py_eq_def by metis

lemma py_eq_refl_left: "py_eq a b \<Longrightarrow> py_eq a a"
  unfolding py_eq_def by metis

lemma py_eq_refl_right: "py_eq a b \<Longrightarrow> py_eq b b"
  unfolding py_eq_def by metis

text \<open>Numbers are equal as keys whatever their type; NaN is equal to nothing.\<close>

lemma py_eq_int_float: "py_eq (PInt 1) (PFloat 1)" "py_eq (PFloat 2) (PInt 2)"
  "py_eq (PBool True) (PInt 1)" "\<not> py_eq (pstr ''1'') (PInt 1)" "\<not> py_eq PNaN PNaN"
  by (simp_all add: py_eq_def pstr_def)

lemma joins_sym: "joins p u v \<Longrightarrow> joins p v u"
  by (auto simp: joins_def)

lemma joins_same_pair:
  assumes "joins p a b" and "joins q a b"
  shows "joins p (fst q) (snd q)"
proof -
  from assms(1) consider "py_eq (fst p) a" "py_eq (snd p) b" | "py_eq (fst p) b" "py_eq (snd p) a"
    by (auto simp: joins_def)
  then show ?thesis
  proof cases
    case 1
    from assms(2) consider "py_eq (fst q) a" "py_eq (snd q) b" | "py_eq (fst q) b" "py_eq (snd q) a"
      by (auto simp: joins_def)
    then show ?thesis
    proof cases
      case 1
      from \<open>py_eq (fst p) a\<close> py_eq_sym[OF 1(1)] have "py_eq (fst p) (fst q)" by (rule py_eq_trans)
      moreover from \<open>py_eq (snd p) b\<close> py_eq_sym[OF 1(2)] have "py_eq (snd p) (snd q)"
        by (rule py_eq_trans)
      ultimately show ?thesis by (simp add: joins_def)
    next
      case 2
      from \<open>py_eq (fst p) a\<close> py_eq_sym[OF 2(2)] have "py_eq (fst p) (snd q)" by (rule py_eq_trans)
      moreover from \<open>py_eq (snd p) b\<close> py_eq_sym[OF 2(1)] have "py_eq (snd p) (fst q)"
        by (rule py_eq_trans)
      ultimately show ?thesis by (simp add: joins_def)
    qed
  next
    case 2
    from assms(2) consider "py_eq (fst q) a" "py_eq (snd q) b" | "py_eq (fst q) b" "py_eq (snd q) a"
      by (auto simp: joins_def)
    then show ?thesis
    proof cases
      case 1
      from \<open>py_eq (fst p) b\<close> py_eq_sym[OF 1(2)] have "py_eq (fst p) (snd q)" by (rule py_eq_trans)
      moreover from \<open>py_eq (snd p) a\<close> py_eq_sym[OF 1(1)] have "py_eq (snd p) (fst q)"
        by (rule py_eq_trans)
      ultimately show ?thesis by (simp add: joins_def)
    next
      case 2
      from \<open>py_eq (fst p) b\<close> py_eq_sym[OF 2(1)] have "py_eq (fst p) (fst q)" by (rule py_eq_trans)
      moreover from \<open>py_eq (snd p) a\<close> py_eq_sym[OF 2(2)] have "py_eq (snd p) (snd q)"
        by (rule py_eq_trans)
      ultimately show ?thesis by (simp add: joins_def)
    qed
  qed
qed

subsection \<open>The nodes\<close>

lemma py_update_has:
  "(\<exists>p \<in> set (py_update k v ns). py_eq (fst p) n)
   \<longleftrightarrow> (\<exists>p \<in> set ns. py_eq (fst p) n) \<or> py_eq k n"
proof (induction ns)
  case Nil
  show ?case by simp
next
  case (Cons q qs)
  show ?case
  proof (cases "py_eq (fst q) k")
    case True
    have "py_eq k n \<Longrightarrow> py_eq (fst q) n" using True by (rule py_eq_trans)
    with True show ?thesis by auto
  next
    case False
    with Cons.IH show ?thesis by auto
  qed
qed

lemma graph_add_node_has:
  "has_node (graph_add_node k attrs Gr) n \<longleftrightarrow> has_node Gr n \<or> py_eq k n"
  by (simp add: has_node_def graph_add_node_def py_update_has)

lemma station_fold_has:
  "has_node (fold (\<lambda>station. graph_add_node (station_id_a station) station) stations Gr) n
   \<longleftrightarrow> has_node Gr n \<or> (\<exists>s \<in> set stations. py_eq (station_id_a s) n)"
proof (induction stations arbitrary: Gr)
  case Nil
  show ?case by simp
next
  case (Cons s stations)
  show ?case by (auto simp: Cons.IH graph_add_node_has)
qed

lemma station_fold_edges:
  "g_edges (fold (\<lambda>station. graph_add_node (station_id_a station) station) stations Gr) = g_edges Gr"
  by (induction stations arbitrary: Gr) (auto simp: graph_add_node_def)

lemma add_edge_rec_nodes: "g_nodes (add_edge_rec e Gr) = g_nodes Gr"
  by (simp add: add_edge_rec_def Let_def graph_add_edge_def ensure_gnode_def has_node_def)

lemma fold_add_edge_rec_nodes: "g_nodes (fold add_edge_rec es Gr) = g_nodes Gr"
  by (induction es arbitrary: Gr) (simp_all add: add_edge_rec_nodes)

lemma fold_add_edge_rec_has: "has_node (fold add_edge_rec es Gr) n = has_node Gr n"
  by (simp add: has_node_def fold_add_edge_rec_nodes)

lemma build_networkx_graph_has:
  "has_node (build_networkx_graph stations edges_df) n
   \<longleftrightarrow> (\<exists>s \<in> set stations. py_eq (station_id_a s) n)"
  by (simp add: build_networkx_graph_def fold_add_edge_rec_has station_fold_has)
    (simp add: has_node_def nx_Graph_def)

lemma build_networkx_graph_nodes:
  "g_nodes (build_networkx_graph stations edges_df) = g_nodes (build_networkx_graph stations [])"
  by (simp add: build_networkx_graph_def fold_add_edge_rec_nodes)

subsection \<open>The edges\<close>

lemma add_edge_rec_edges:
  "g_edges (add_edge_rec e Gr)
   = (if has_node Gr (source_station e) \<and> has_node Gr (target_station e)
      then put_edge (source_station e) (target_station e) (attrs_of e) (g_edges Gr)
      else g_edges Gr)"
  by (simp add: add_edge_rec_def Let_def graph_add_edge_def)

lemma put_edge_keys:
  "x \<in> set (put_edge u v a es) \<Longrightarrow> fst x = (u, v) \<or> fst x \<in> fst ` set es"
proof (induction es)
  case Nil
  then show ?case by simp
next
  case (Cons pe es)
  obtain p old where pe: "pe = (p, old)" by (cases pe)
  show ?case
  proof (cases "joins p u v")
    case True
    with Cons.prems pe have "x = (p, a) \<or> x \<in> set es" by simp
    then show ?thesis using pe by force
  next
    case False
    with Cons.prems pe have "x = (p, old) \<or> x \<in> set (put_edge u v a es)" by simp
    then show ?thesis
    proof
      assume "x = (p, old)"
      then show ?thesis using pe by simp
    next
      assume "x \<in> set (put_edge u v a es)"
      from Cons.IH[OF this] show ?thesis by auto
    qed
  qed
qed

lemma add_edge_rec_endpoints:
  assumes "\<forall>p \<in> fst ` set (g_edges Gr). has_node Gr (fst p) \<and> has_node Gr (snd p)"
  shows "\<forall>p \<in> fst ` set (g_edges (add_edge_rec e Gr)).
           has_node (add_edge_rec e Gr) (fst p) \<and> has_node (add_edge_rec e Gr) (snd p)"
proof (cases "has_node Gr (source_station e) \<and> has_node Gr (target_station e)")
  case False
  then have "add_edge_rec e Gr = Gr" by (auto simp: add_edge_rec_def Let_def)
  with assms show ?thesis by simp
next
  case True
  have n: "\<And>x. has_node (add_edge_rec e Gr) x = has_node Gr x"
    by (simp add: has_node_def add_edge_rec_nodes)
  have ge: "g_edges (add_edge_rec e Gr)
            = put_edge (source_station e) (target_station e) (attrs_of e) (g_edges Gr)"
    using True by (simp add: add_edge_rec_edges)
  have keys: "\<And>p. p \<in> fst ` set (g_edges (add_edge_rec e Gr))
      \<Longrightarrow> p = (source_station e, target_station e) \<or> p \<in> fst ` set (g_edges Gr)"
    unfolding ge using put_edge_keys by blast
  show ?thesis unfolding n
  proof
    fix p assume "p \<in> fst ` set (g_edges (add_edge_rec e Gr))"
    from keys[OF this] show "has_node Gr (fst p) \<and> has_node Gr (snd p)"
    proof
      assume "p = (source_station e, target_station e)"
      with True show ?thesis by simp
    next
      assume "p \<in> fst ` set (g_edges Gr)"
      with assms show ?thesis by (rule bspec)
    qed
  qed
qed

lemma fold_add_edge_rec_endpoints:
  assumes "\<forall>p \<in> fst ` set (g_edges Gr). has_node Gr (fst p) \<and> has_node Gr (snd p)"
  shows "\<forall>p \<in> fst ` set (g_edges (fold add_edge_rec es Gr)).
           has_node (fold add_edge_rec es Gr) (fst p) \<and> has_node (fold add_edge_rec es Gr) (snd p)"
  using assms
proof (induction es arbitrary: Gr)
  case Nil
  then show ?case by simp
next
  case (Cons e es)
  from add_edge_rec_endpoints[OF Cons.prems] Cons.IH show ?case by simp
qed

lemma build_networkx_graph_drop:
  assumes "\<not> (\<exists>s \<in> set stations. py_eq (station_id_a s) (source_station e))
           \<or> \<not> (\<exists>s \<in> set stations. py_eq (station_id_a s) (target_station e))"
  shows "build_networkx_graph stations (pre @ [e] @ post) = build_networkx_graph stations (pre @ post)"
proof -
  let ?G0 = "fold (\<lambda>station. graph_add_node (station_id_a station) station) stations nx_Graph"
  let ?G1 = "fold add_edge_rec pre ?G0"
  have h: "\<And>n. has_node ?G1 n \<longleftrightarrow> (\<exists>s \<in> set stations. py_eq (station_id_a s) n)"
    using build_networkx_graph_has[of stations pre] by (simp add: build_networkx_graph_def)
  from assms have "\<not> (has_node ?G1 (source_station e) \<and> has_node ?G1 (target_station e))"
    unfolding h by blast
  then have "add_edge_rec e ?G1 = ?G1" by (auto simp: add_edge_rec_def Let_def)
  then show ?thesis by (simp add: build_networkx_graph_def)
qed

lemma build_networkx_graph_endpoints:
  assumes "p \<in> fst ` set (g_edges (build_networkx_graph stations edges_df))"
  shows "(\<exists>s \<in> set stations. py_eq (station_id_a s) (fst p))
         \<and> (\<exists>s \<in> set stations. py_eq (station_id_a s) (snd p))"
proof -
  let ?G0 = "fold (\<lambda>station. graph_add_node (station_id_a station) station) stations nx_Graph"
  let ?B = "build_networkx_graph stations edges_df"
  have B: "?B = fold add_edge_rec edges_df ?G0" by (simp add: build_networkx_graph_def)
  have "\<forall>p \<in> fst ` set (g_edges ?G0). has_node ?G0 (fst p) \<and> has_node ?G0 (snd p)"
    by (simp add: station_fold_edges nx_Graph_def)
  from fold_add_edge_rec_endpoints[OF this, of edges_df]
  have "\<forall>p \<in> fst ` set (g_edges ?B). has_node ?B (fst p) \<and> has_node ?B (snd p)"
    by (simp only: B)
  from this assms have "has_node ?B (fst p) \<and> has_node ?B (snd p)" by (rule bspec)
  then show ?thesis by (simp only: build_networkx_graph_has)
qed

text \<open>
  Claim C10: in the graph that \<open>build_networkx_graph\<close> returns, each endpoint of every
  edge is equal, as a key, to the identifier of a station record; the nodes that
  \<open>source in G.nodes\<close> finds are the values equal to the identifier of a station record;
  and the edge records add no node: the nodes are those of the graph built without edge
  records. An edge record with an endpoint that is equal to no station identifier is
  dropped without a trace: the graph, which is all the function returns, is the one built
  from the records without it.
\<close>

theorem C10_edges_join_station_nodes:
  "(\<forall>p \<in> fst ` set (g_edges (build_networkx_graph stations edges_df)).
      (\<exists>s \<in> set stations. py_eq (station_id_a s) (fst p))
      \<and> (\<exists>s \<in> set stations. py_eq (station_id_a s) (snd p)))
   \<and> (has_node (build_networkx_graph stations edges_df) n
        \<longleftrightarrow> (\<exists>s \<in> set stations. py_eq (station_id_a s) n))
   \<and> g_nodes (build_networkx_graph stations edges_df)
       = g_nodes (build_networkx_graph stations [])
   \<and> (\<not> (\<exists>s \<in> set stations. py_eq (station_id_a s) (source_station e))
        \<or> \<not> (\<exists>s \<in> set stations. py_eq (station_id_a s) (target_station e))
      \<longrightarrow> build_networkx_graph stations (pre @ [e] @ post)
          = build_networkx_graph stations (pre @ post))"
proof (intro conjI ballI impI)
  fix p assume "p \<in> fst ` set (g_edges (build_networkx_graph stations edges_df))"
  from build_networkx_graph_endpoints[OF this]
  show "\<exists>s \<in> set stations. py_eq (station_id_a s) (fst p)"
    and "\<exists>s \<in> set stations. py_eq (station_id_a s) (snd p)"
    by (rule conjunct1, rule conjunct2)
next
  show "has_node (build_networkx_graph stations edges_df) n
        \<longleftrightarrow> (\<exists>s \<in> set stations. py_eq (station_id_a s) n)"
    by (rule build_networkx_graph_has)
next
  show "g_nodes (build_networkx_graph stations edges_df)
        = g_nodes (build_networkx_graph stations [])"
    by (rule build_networkx_graph_nodes)
next
  assume "\<not> (\<exists>s \<in> set stations. py_eq (station_id_a s) (source_station e))
          \<or> \<not> (\<exists>s \<in> set stations. py_eq (station_id_a s) (target_station e))"
  then show "build_networkx_graph stations (pre @ [e] @ post)
             = build_networkx_graph stations (pre @ post)"
    by (rule build_networkx_graph_drop)
qed

text \<open>
  Witness for C10: the stations 1 and 2, as integers. The edge record from 1.0 to 2.0 is
  kept, because these floats are equal to the integers; the edge record from 1 to 5
  changes nothing, and neither does the record from a missing identifier to 2.
\<close>

theorem C10_edges_join_station_nodes_witness:
  "build_networkx_graph [mk_station_rec (PInt 1), mk_station_rec (PInt 2)]
     [mk_edge_rec (PFloat 1) (PFloat 2) (PInt 101) (PFloat 10),
      mk_edge_rec (PInt 1) (PInt 5) (PInt 102) (PFloat 12),
      mk_edge_rec PNaN (PInt 2) (PInt 103) (PFloat 7)]
   = build_networkx_graph [mk_station_rec (PInt 1), mk_station_rec (PInt 2)]
       [mk_edge_rec (PFloat 1) (PFloat 2) (PInt 101) (PFloat 10)]
   \<and> g_edges (build_networkx_graph [mk_station_rec (PInt 1), mk_station_rec (PInt 2)]
        [mk_edge_rec (PFloat 1) (PFloat 2) (PInt 101) (PFloat 10)])
     = [((PFloat 1, PFloat 2),
         \<lparr>a_edge_id = PInt 101, a_seg_id = PInt 1, a_length_km = PFloat 10\<rparr>)]
   \<and> has_node (build_networkx_graph [mk_station_rec (PInt 1), mk_station_rec (PInt 2)]
        [mk_edge_rec (PFloat 1) (PFloat 2) (PInt 101) (PFloat 10)]) (PFloat 2)
   \<and> \<not> has_node (build_networkx_graph [mk_station_rec (PInt 1), mk_station_rec (PInt 2)]
        [mk_edge_rec (PFloat 1) (PFloat 2) (PInt 101) (PFloat 10)]) (PInt 5)
   \<and> map fst (g_nodes (build_networkx_graph [mk_station_rec (PInt 1), mk_station_rec (PInt 2)]
        [mk_edge_rec (PFloat 1) (PFloat 2) (PInt 101) (PFloat 10)])) = [PInt 1, PInt 2]"
proof -
  let ?S = "[mk_station_rec (PInt 1), mk_station_rec (PInt 2)]"
  let ?e1 = "mk_edge_rec (PFloat 1) (PFloat 2) (PInt 101) (PFloat 10)"
  let ?e2 = "mk_edge_rec (PInt 1) (PInt 5) (PInt 102) (PFloat 12)"
  let ?e3 = "mk_edge_rec PNaN (PInt 2) (PInt 103) (PFloat 7)"
  have h2: "\<not> (\<exists>s \<in> set ?S. py_eq (station_id_a s) (source_station ?e2))
           \<or> \<not> (\<exists>s \<in> set ?S. py_eq (station_id_a s) (target_station ?e2))"
    by (simp add: mk_station_rec_def mk_edge_rec_def py_eq_def)
  have h3: "\<not> (\<exists>s \<in> set ?S. py_eq (station_id_a s) (source_station ?e3))
           \<or> \<not> (\<exists>s \<in> set ?S. py_eq (station_id_a s) (target_station ?e3))"
    by (simp add: mk_station_rec_def mk_edge_rec_def py_eq_def)
  note w2 = C10_edges_join_station_nodes[of ?S "[?e1]" "PFloat 2" ?e2 "[?e1]" "[?e3]",
      unfolded append.simps]
  note w3 = C10_edges_join_station_nodes[of ?S "[?e1]" "PInt 5" ?e3 "[?e1]" "[]",
      unfolded append.simps]
  from w2[THEN conjunct2, THEN conjunct2, THEN conjunct2, THEN mp, OF h2]
  have a: "build_networkx_graph ?S [?e1, ?e2, ?e3] = build_networkx_graph ?S [?e1, ?e3]" .
  from w3[THEN conjunct2, THEN conjunct2, THEN conjunct2, THEN mp, OF h3]
  have b: "build_networkx_graph ?S [?e1, ?e3] = build_networkx_graph ?S [?e1]" .
  have 1: "build_networkx_graph ?S [?e1, ?e2, ?e3] = build_networkx_graph ?S [?e1]"
    using a b by (rule trans)
  have 2: "g_edges (build_networkx_graph ?S [?e1])
     = [((PFloat 1, PFloat 2),
         \<lparr>a_edge_id = PInt 101, a_seg_id = PInt 1, a_length_km = PFloat 10\<rparr>)]"
    by (simp add: build_networkx_graph_def mk_station_rec_def mk_edge_rec_def graph_add_node_def
        nx_Graph_def add_edge_rec_def has_node_def graph_add_edge_def ensure_gnode_def
        attrs_of_def py_eq_def Let_def)
  have 3: "has_node (build_networkx_graph ?S [?e1]) (PFloat 2)"
    unfolding w2[THEN conjunct2, THEN conjunct1]
    by (simp add: mk_station_rec_def py_eq_def)
  have 4: "\<not> has_node (build_networkx_graph ?S [?e1]) (PInt 5)"
    unfolding w3[THEN conjunct2, THEN conjunct1]
    by (simp add: mk_station_rec_def py_eq_def)
  have 5: "map fst (g_nodes (build_networkx_graph ?S [?e1])) = [PInt 1, PInt 2]"
    unfolding w2[THEN conjunct2, THEN conjunct2, THEN conjunct1]
    by (simp add: build_networkx_graph_def mk_station_rec_def graph_add_node_def
        nx_Graph_def py_eq_def)
  from 1 2 3 4 5 show ?thesis by (intro conjI)
qed

subsection \<open>The statistics\<close>

lemma density_total:
  "\<exists>d. density Gr = Inr d \<and> (number_of_nodes Gr < 2 \<longrightarrow> d = 0)
        \<and> (number_of_edges Gr = 0 \<longrightarrow> d = 0)"
proof (cases "number_of_nodes Gr < 2")
  case True
  then show ?thesis by (simp add: density_def Let_def)
next
  case False
  define n where "n = number_of_nodes Gr"
  from False have "2 \<le> n" by (simp add: n_def)
  then have "0 < n * (n - 1)" by simp
  then have nz: "real (n * (n - 1)) / 2 \<noteq> 0" by simp
  have "density Gr = Inr (real (number_of_edges Gr) / (real (n * (n - 1)) / 2))"
    using False nz by (simp only: density_def Let_def py_truediv_def n_def if_False)
  then show ?thesis using False by simp
qed

text \<open>
  Claim C8: the statistics are computed without a division error for every graph, and
  the density is 0 when the graph has fewer than two nodes and when it has no edge.
\<close>

theorem C8_stats_no_division_error:
  "\<exists>s. network_stats yr stations Gr = Inr s
       \<and> (number_of_nodes Gr < 2 \<longrightarrow> st_density s = 0)
       \<and> (number_of_edges Gr = 0 \<longrightarrow> st_density s = 0)"
proof -
  from density_total[of Gr] obtain d
    where d: "density Gr = Inr d \<and> (number_of_nodes Gr < 2 \<longrightarrow> d = 0)
              \<and> (number_of_edges Gr = 0 \<longrightarrow> d = 0)" ..
  define s where "s = \<lparr>st_year = yr,
               st_nodes = number_of_nodes Gr,
               st_edges = number_of_edges Gr,
               st_connected_components = number_connected_components Gr,
               st_density = d,
               st_stations_with_province =
                 length (filter (\<lambda>s. province_code_a s \<noteq> PStr []) stations),
               st_unique_provinces =
                 length (remdups (map province_code_a
                           (filter (\<lambda>s. province_code_a s \<noteq> PStr []) stations)))\<rparr>"
  have r: "network_stats yr stations Gr = Inr s"
    using d by (simp add: network_stats_def s_def)
  have sd: "st_density s = d" by (simp add: s_def)
  from r d show ?thesis unfolding sd[symmetric] by (intro exI[of _ s]) simp
qed

text \<open>
  Witness for C8: the graph without nodes, and the graph of one node with a loop, which
  has one edge and fewer than two nodes; both have the density 0.
\<close>

theorem C8_stats_no_division_error_witness:
  "(\<exists>s. network_stats (PInt 1990) [] nx_Graph = Inr s \<and> st_density s = 0)
   \<and> (\<exists>s. network_stats (PInt 1990) [mk_station_rec (PInt 1)]
             (build_networkx_graph [mk_station_rec (PInt 1)]
                [mk_edge_rec (PInt 1) (PInt 1) (PInt 101) (PFloat 10)]) = Inr s
          \<and> st_density s = 0)"
proof -
  let ?G = "build_networkx_graph [mk_station_rec (PInt 1)]
                [mk_edge_rec (PInt 1) (PInt 1) (PInt 101) (PFloat 10)]"
  have n0: "number_of_nodes nx_Graph < 2" by (simp add: number_of_nodes_def nx_Graph_def)
  have n1: "number_of_nodes ?G < 2"
    by (simp add: number_of_nodes_def build_networkx_graph_def add_edge_rec_nodes
        graph_add_node_def nx_Graph_def)
  from C8_stats_no_division_error[of "PInt 1990" "[]" nx_Graph] n0
  have a: "\<exists>s. network_stats (PInt 1990) [] nx_Graph = Inr s \<and> st_density s = 0"
    by blast
  from C8_stats_no_division_error[of "PInt 1990" "[mk_station_rec (PInt 1)]" ?G] n1
  have b: "\<exists>s. network_stats (PInt 1990) [mk_station_rec (PInt 1)] ?G = Inr s \<and> st_density s = 0"
    by blast
  from a b show ?thesis by (rule conjI)
qed

section \<open>Parallel edges\<close>

subsection \<open>The directed multigraph of \<open>build network.py\<close>\<close>

lemma build_network_parallel_edges:
  assumes "build_network stations_df (pre @ [r1] @ mid @ [r2] @ post) = Inr st"
    and "start_station r2 = start_station r1"
    and "end_station r2 = end_station r1"
    and "u = dict_get (build_index stations_df) (normalize_name (start_station r1))"
    and "v = dict_get (build_index stations_df) (normalize_name (end_station r1))"
    and "truthy u" and "truthy v"
  shows "\<exists>es1 es2 es3 k1 k2 y1 y2.
           edges (G st) = es1 @ [track_edge u v k1 r1 y1] @ es2 @ [track_edge u v k2 r2 y2] @ es3
           \<and> k1 < k2
           \<and> year_int_of (year r1) = Inr y1 \<and> year_int_of (year r2) = Inr y2"
proof -
  from assms(1) obtain s1 where 1: "build_network stations_df pre = Inr s1"
    and a: "add_tracks s1 ([r1] @ mid @ [r2] @ post) = Inr st"
    by (auto simp: build_network_append split: sum.splits)
  from a obtain s2 where 2: "add_track s1 r1 = Inr s2"
    and b: "add_tracks s2 (mid @ [r2] @ post) = Inr st"
    by (auto split: sum.splits)
  from b obtain s3 where 3: "add_tracks s2 mid = Inr s3"
    and c: "add_tracks s3 ([r2] @ post) = Inr st"
    by (auto simp: add_tracks_append split: sum.splits)
  from c obtain s4 where 4: "add_track s3 r2 = Inr s4"
    and 5: "add_tracks s4 post = Inr st"
    by (auto split: sum.splits)
  have i1: "name_to_id s1 = build_index stations_df"
    using 1 by (rule build_network_index)
  have i3: "name_to_id s3 = build_index stations_df"
    using 2 3 i1 by (simp add: add_track_index add_tracks_index)
  from add_track_resolved[OF 2 _ _ assms(6,7)] assms(4,5) i1
  obtain y1 where y1: "year_int_of (year r1) = Inr y1"
    and e2: "edges (G s2) = edges (G s1) @ [track_edge u v (new_edge_key (G s1) u v) r1 y1]"
    by auto
  from add_tracks_edges_grow[OF 3] obtain em where e3: "edges (G s3) = edges (G s2) @ em"
    by blast
  from add_track_resolved[OF 4 _ _ assms(6,7)] assms(2-5) i3
  obtain y2 where y2: "year_int_of (year r2) = Inr y2"
    and e4: "edges (G s4) = edges (G s3) @ [track_edge u v (new_edge_key (G s3) u v) r2 y2]"
    by auto
  from add_tracks_edges_grow[OF 5] obtain ep where e5: "edges (G st) = edges (G s4) @ ep"
    by blast
  have "new_edge_key (G s1) u v < new_edge_key (G s3) u v"
    by (simp add: new_edge_key_def e3 e2 track_edge_def)
  moreover have "edges (G st)
      = edges (G s1) @ [track_edge u v (new_edge_key (G s1) u v) r1 y1] @ em
        @ [track_edge u v (new_edge_key (G s3) u v) r2 y2] @ ep"
    by (simp add: e5 e4 e3 e2)
  ultimately show ?thesis using y1 y2 by blast
qed

subsection \<open>The simple graph of \<open>build and plot the network.py\<close>\<close>

lemma filter_fst_length:
  "length (filter (\<lambda>x. P (fst x)) es) = length (filter P (map fst es))"
  by (induction es) auto

lemma put_edge_replace:
  "\<exists>x \<in> set es. joins (fst x) u v \<Longrightarrow> map fst (put_edge u v a es) = map fst es"
proof (induction es)
  case Nil
  then show ?case by simp
next
  case (Cons pe es)
  obtain p old where pe: "pe = (p, old)" by (cases pe)
  show ?case
  proof (cases "joins p u v")
    case True
    then show ?thesis by (simp add: pe)
  next
    case False
    with Cons.prems pe have "\<exists>x \<in> set es. joins (fst x) u v" by auto
    from Cons.IH[OF this] show ?thesis by (simp add: pe False)
  qed
qed

lemma put_edge_append:
  "\<not> (\<exists>x \<in> set es. joins (fst x) u v) \<Longrightarrow> put_edge u v a es = es @ [((u, v), a)]"
proof (induction es)
  case Nil
  then show ?case by simp
next
  case (Cons pe es)
  obtain p old where pe: "pe = (p, old)" by (cases pe)
  from Cons.prems pe have nj: "\<not> joins p u v" by simp
  from Cons.prems have "\<not> (\<exists>x \<in> set es. joins (fst x) u v)" by simp
  from Cons.IH[OF this] show ?case by (simp add: pe nj)
qed

lemma joins_common:
  assumes "joins p u v" and "joins p s t"
  shows "joins (s, t) u v"
proof -
  from assms show ?thesis
    unfolding joins_def py_eq_def fst_conv snd_conv by metis
qed

lemma put_edge_simple:
  assumes "\<forall>a b. length (filter (\<lambda>x. joins (fst x) a b) es) \<le> 1"
  shows "length (filter (\<lambda>x. joins (fst x) a b) (put_edge u v attrs es)) \<le> 1"
proof (cases "\<exists>x \<in> set es. joins (fst x) u v")
  case True
  have "length (filter (\<lambda>x. joins (fst x) a b) (put_edge u v attrs es))
        = length (filter (\<lambda>p. joins p a b) (map fst (put_edge u v attrs es)))"
    by (rule filter_fst_length)
  also have "\<dots> = length (filter (\<lambda>p. joins p a b) (map fst es))"
    by (simp only: put_edge_replace[OF True])
  also have "\<dots> = length (filter (\<lambda>x. joins (fst x) a b) es)"
    by (rule filter_fst_length[symmetric])
  finally show ?thesis using assms by simp
next
  case False
  then have pe: "put_edge u v attrs es = es @ [((u, v), attrs)]" by (rule put_edge_append)
  show ?thesis
  proof (cases "joins (u, v) a b")
    case True
    have "filter (\<lambda>x. joins (fst x) a b) es = []"
    proof (rule ccontr)
      assume "filter (\<lambda>x. joins (fst x) a b) es \<noteq> []"
      then obtain x where x: "x \<in> set es" and j: "joins (fst x) a b"
        by (auto simp: filter_empty_conv)
      from j True have "joins (fst x) (fst (u, v)) (snd (u, v))" by (rule joins_same_pair)
      with x False show False by auto
    qed
    then show ?thesis by (simp add: pe)
  next
    case False
    then show ?thesis using assms by (simp add: pe)
  qed
qed

lemma add_edge_rec_simple:
  assumes "\<forall>a b. length (filter (\<lambda>x. joins (fst x) a b) (g_edges Gr)) \<le> 1"
  shows "\<forall>a b. length (filter (\<lambda>x. joins (fst x) a b) (g_edges (add_edge_rec e Gr))) \<le> 1"
  using assms put_edge_simple[OF assms] by (simp add: add_edge_rec_edges)

lemma fold_add_edge_rec_simple:
  assumes "\<forall>a b. length (filter (\<lambda>x. joins (fst x) a b) (g_edges Gr)) \<le> 1"
  shows "\<forall>a b. length (filter (\<lambda>x. joins (fst x) a b) (g_edges (fold add_edge_rec es Gr))) \<le> 1"
  using assms
proof (induction es arbitrary: Gr)
  case Nil
  then show ?case by simp
next
  case (Cons e es)
  from add_edge_rec_simple[OF Cons.prems] have
    "\<forall>a b. length (filter (\<lambda>x. joins (fst x) a b) (g_edges (add_edge_rec e Gr))) \<le> 1" .
  from Cons.IH[OF this] show ?case by simp
qed

lemma build_networkx_graph_simple:
  "length (filter (\<lambda>x. joins (fst x) a b) (g_edges (build_networkx_graph stations edges_df))) \<le> 1"
proof -
  let ?G0 = "fold (\<lambda>station. graph_add_node (station_id_a station) station) stations nx_Graph"
  have "\<forall>a b. length (filter (\<lambda>x. joins (fst x) a b) (g_edges ?G0)) \<le> 1"
    by (simp add: station_fold_edges nx_Graph_def)
  from fold_add_edge_rec_simple[OF this, of edges_df] show ?thesis
    by (simp add: build_networkx_graph_def)
qed

lemma put_edge_has_entry:
  assumes "py_eq u u" and "py_eq v v"
  shows "\<exists>p. (p, a) \<in> set (put_edge u v a es) \<and> joins p u v"
proof (induction es)
  case Nil
  from assms show ?case by (simp add: joins_def)
next
  case (Cons pe es)
  obtain p old where pe: "pe = (p, old)" by (cases pe)
  show ?case
  proof (cases "joins p u v")
    case True
    then show ?thesis by (intro exI[of _ p]) (simp add: pe)
  next
    case False
    from Cons.IH obtain q where "(q, a) \<in> set (put_edge u v a es)" and "joins q u v" by blast
    then show ?thesis by (intro exI[of _ q]) (simp add: pe False)
  qed
qed

lemma put_edge_keeps:
  assumes "(p, a) \<in> set es" and "\<not> joins p u v"
  shows "(p, a) \<in> set (put_edge u v a' es)"
  using assms
proof (induction es)
  case Nil
  then show ?case by simp
next
  case (Cons qe es)
  obtain q old where qe: "qe = (q, old)" by (cases qe)
  show ?case
  proof (cases "joins q u v")
    case True
    with Cons.prems qe have "(p, a) \<in> set es" by auto
    then show ?thesis by (simp add: qe True)
  next
    case False
    from Cons.prems(1) qe have "(p, a) = (q, old) \<or> (p, a) \<in> set es" by simp
    then show ?thesis
    proof
      assume "(p, a) = (q, old)"
      then show ?thesis by (simp add: qe False)
    next
      assume "(p, a) \<in> set es"
      from Cons.IH[OF this Cons.prems(2)] show ?thesis by (simp add: qe False)
    qed
  qed
qed

lemma add_edge_rec_keeps:
  assumes "(p, a) \<in> set (g_edges Gr)" and "joins p u v"
    and "\<not> joins (source_station e, target_station e) u v"
  shows "(p, a) \<in> set (g_edges (add_edge_rec e Gr))"
proof -
  have "\<not> joins p (source_station e) (target_station e)"
  proof
    assume "joins p (source_station e) (target_station e)"
    with assms(2) have "joins (source_station e, target_station e) u v" by (rule joins_common)
    with assms(3) show False ..
  qed
  with assms(1) show ?thesis by (simp add: add_edge_rec_edges put_edge_keeps)
qed

lemma fold_add_edge_rec_keeps:
  assumes "(p, a) \<in> set (g_edges Gr)" and "joins p u v"
    and "\<forall>e \<in> set es. \<not> joins (source_station e, target_station e) u v"
  shows "(p, a) \<in> set (g_edges (fold add_edge_rec es Gr))"
  using assms
proof (induction es arbitrary: Gr)
  case Nil
  then show ?case by simp
next
  case (Cons e es)
  from Cons.prems(3) have ne: "\<not> joins (source_station e, target_station e) u v" by simp
  from Cons.prems(1,2) ne have "(p, a) \<in> set (g_edges (add_edge_rec e Gr))"
    by (rule add_edge_rec_keeps)
  from Cons.IH[OF this Cons.prems(2)] Cons.prems(3) show ?case by simp
qed

lemma build_networkx_graph_last_wins:
  assumes "\<exists>s \<in> set stations. py_eq (station_id_a s) (source_station e)"
    and "\<exists>s \<in> set stations. py_eq (station_id_a s) (target_station e)"
    and "\<forall>e' \<in> set after. \<not> joins (source_station e', target_station e')
                                  (source_station e) (target_station e)"
  shows "\<exists>p. (p, attrs_of e) \<in> set (g_edges (build_networkx_graph stations (before @ [e] @ after)))
             \<and> joins p (source_station e) (target_station e)"
proof -
  let ?G0 = "fold (\<lambda>station. graph_add_node (station_id_a station) station) stations nx_Graph"
  let ?G1 = "fold add_edge_rec before ?G0"
  let ?u = "source_station e" and ?v = "target_station e"
  have h: "\<And>n. has_node ?G1 n \<longleftrightarrow> (\<exists>s \<in> set stations. py_eq (station_id_a s) n)"
    using build_networkx_graph_has[of stations before] by (simp add: build_networkx_graph_def)
  from assms(1,2) have hu: "has_node ?G1 ?u" and hv: "has_node ?G1 ?v" by (simp_all only: h)
  from assms(1) have uu: "py_eq ?u ?u" by (blast intro: py_eq_refl_right)
  from assms(2) have vv: "py_eq ?v ?v" by (blast intro: py_eq_refl_right)
  have ge: "g_edges (add_edge_rec e ?G1) = put_edge ?u ?v (attrs_of e) (g_edges ?G1)"
    using hu hv by (simp add: add_edge_rec_edges)
  from put_edge_has_entry[OF uu vv, of "attrs_of e" "g_edges ?G1"]
  obtain p where p: "(p, attrs_of e) \<in> set (g_edges (add_edge_rec e ?G1))" and j: "joins p ?u ?v"
    unfolding ge by blast
  from fold_add_edge_rec_keeps[OF p j assms(3)]
  have "(p, attrs_of e) \<in> set (g_edges (fold add_edge_rec after (add_edge_rec e ?G1)))" .
  then have "(p, attrs_of e) \<in> set (g_edges (build_networkx_graph stations (before @ [e] @ after)))"
    by (simp add: build_networkx_graph_def)
  with j show ?thesis by blast
qed

text \<open>
  Claim C2, as the code has it. In the builder of \<open>build network.py\<close>, when a build
  completes and two of its track records have the same endpoint labels, both resolving
  to truthy identifiers \<open>u\<close> and \<open>v\<close>, the graph holds two edges from \<open>u\<close> to \<open>v\<close>
  under different keys, the first with the length, year and type of the first record, the
  second with those of the second record. The graph of \<open>build_networkx_graph\<close> is simple:
  for every two values \<open>a\<close> and \<open>b\<close> at most one of its edges joins them, in either
  direction; and an edge record whose endpoints are both equal to station identifiers,
  when no later record joins the same pair, leaves its attributes on the edge of its
  pair, whatever records came before it.
\<close>

theorem C2_parallel_edges_kept:
  "(build_network stations_df (pre @ [r1] @ mid @ [r2] @ post) = Inr st
      \<and> start_station r2 = start_station r1
      \<and> end_station r2 = end_station r1
      \<and> u = dict_get (build_index stations_df) (normalize_name (start_station r1))
      \<and> v = dict_get (build_index stations_df) (normalize_name (end_station r1))
      \<and> truthy u \<and> truthy v
    \<longrightarrow> (\<exists>es1 es2 es3 k1 k2 y1 y2.
           edges (G st) = es1 @ [track_edge u v k1 r1 y1] @ es2 @ [track_edge u v k2 r2 y2] @ es3
           \<and> k1 < k2
           \<and> year_int_of (year r1) = Inr y1 \<and> year_int_of (year r2) = Inr y2))
   \<and> length (filter (\<lambda>x. joins (fst x) a b)
               (g_edges (build_networkx_graph stations edges_df))) \<le> 1
   \<and> ((\<exists>s \<in> set stations. py_eq (station_id_a s) (source_station e))
        \<and> (\<exists>s \<in> set stations. py_eq (station_id_a s) (target_station e))
        \<and> (\<forall>e' \<in> set after. \<not> joins (source_station e', target_station e')
                                     (source_station e) (target_station e))
      \<longrightarrow> (\<exists>p. (p, attrs_of e)
                  \<in> set (g_edges (build_networkx_graph stations (before @ [e] @ after)))
               \<and> joins p (source_station e) (target_station e)))"
proof (intro conjI impI)
  assume a: "build_network stations_df (pre @ [r1] @ mid @ [r2] @ post) = Inr st
      \<and> start_station r2 = start_station r1
      \<and> end_station r2 = end_station r1
      \<and> u = dict_get (build_index stations_df) (normalize_name (start_station r1))
      \<and> v = dict_get (build_index stations_df) (normalize_name (end_station r1))
      \<and> truthy u \<and> truthy v"
  then have 1: "build_network stations_df (pre @ [r1] @ mid @ [r2] @ post) = Inr st"
    and 2: "start_station r2 = start_station r1"
    and 3: "end_station r2 = end_station r1"
    and 4: "u = dict_get (build_index stations_df) (normalize_name (start_station r1))"
    and 5: "v = dict_get (build_index stations_df) (normalize_name (end_station r1))"
    and 6: "truthy u" and 7: "truthy v"
    by blast+
  from 1 2 3 4 5 6 7
  show "\<exists>es1 es2 es3 k1 k2 y1 y2.
           edges (G st) = es1 @ [track_edge u v k1 r1 y1] @ es2 @ [track_edge u v k2 r2 y2] @ es3
           \<and> k1 < k2
           \<and> year_int_of (year r1) = Inr y1 \<and> year_int_of (year r2) = Inr y2"
    by (rule build_network_parallel_edges)
next
  show "length (filter (\<lambda>x. joins (fst x) a b)
               (g_edges (build_networkx_graph stations edges_df))) \<le> 1"
    by (rule build_networkx_graph_simple)
next
  assume "(\<exists>s \<in> set stations. py_eq (station_id_a s) (source_station e))
        \<and> (\<exists>s \<in> set stations. py_eq (station_id_a s) (target_station e))
        \<and> (\<forall>e' \<in> set after. \<not> joins (source_station e', target_station e')
                                     (source_station e) (target_station e))"
  then have 1: "\<exists>s \<in> set stations. py_eq (station_id_a s) (source_station e)"
    and 2: "\<exists>s \<in> set stations. py_eq (station_id_a s) (target_station e)"
    and 3: "\<forall>e' \<in> set after. \<not> joins (source_station e', target_station e')
                                     (source_station e) (target_station e)"
    by (rule conjunct1, rule conjunct2[THEN conjunct1], rule conjunct2[THEN conjunct2])
  from 1 2 3
  show "\<exists>p. (p, attrs_of e)
                  \<in> set (g_edges (build_networkx_graph stations (before @ [e] @ after)))
               \<and> joins p (source_station e) (target_station e)"
    by (rule build_networkx_graph_last_wins)
qed

text \<open>
  Witness for C2. In \<open>build network.py\<close>: two tracks from \<open>Alpha\<close> to \<open>Beta\<close>, of 10 km
  from 1990 and of 12 km without a year, give two edges. In \<open>build_networkx_graph\<close>: the
  stations 1 and 2 and three edge records, from 1 to 2, from 2.0 to 1 and from 1 to 1; at
  most one edge joins 1 and 2, and it has the attributes of the second record.
\<close>

theorem C2_parallel_edges_kept_witness:
  "(\<exists>st. build_network [mk_station (pstr ''S1'') (lbl ''Alpha''),
                        mk_station (pstr ''S2'') (lbl ''Beta'')]
           ([] @ [mk_track (lbl ''Alpha'') (lbl ''Beta'') (PFloat 10) (PInt 1990) (pstr ''rail pass'')]
            @ [] @ [mk_track (lbl ''Alpha'') (lbl ''Beta'') (PFloat 12) PNaN (pstr ''road'')] @ [])
         = Inr st
       \<and> truthy (pstr ''S1'') \<and> truthy (pstr ''S2'')
       \<and> (\<exists>es1 es2 es3 k1 k2 y1 y2.
             edges (G st)
             = es1 @ [track_edge (pstr ''S1'') (pstr ''S2'') k1
                        (mk_track (lbl ''Alpha'') (lbl ''Beta'') (PFloat 10) (PInt 1990)
                           (pstr ''rail pass'')) y1]
               @ es2 @ [track_edge (pstr ''S1'') (pstr ''S2'') k2
                          (mk_track (lbl ''Alpha'') (lbl ''Beta'') (PFloat 12) PNaN
                             (pstr ''road'')) y2]
               @ es3
             \<and> k1 < k2
             \<and> year_int_of (year (mk_track (lbl ''Alpha'') (lbl ''Beta'') (PFloat 10) (PInt 1990)
                                    (pstr ''rail pass''))) = Inr y1
             \<and> year_int_of (year (mk_track (lbl ''Alpha'') (lbl ''Beta'') (PFloat 12) PNaN
                                    (pstr ''road''))) = Inr y2))
   \<and> length (filter (\<lambda>x. joins (fst x) (PInt 1) (PInt 2))
        (g_edges (build_networkx_graph [mk_station_rec (PInt 1), mk_station_rec (PInt 2)]
           [mk_edge_rec (PInt 1) (PInt 2) (PInt 101) (PFloat 10),
            mk_edge_rec (PFloat 2) (PInt 1) (PInt 102) (PFloat 12),
            mk_edge_rec (PInt 1) (PInt 1) (PInt 103) (PFloat 3)]))) \<le> 1
   \<and> (\<exists>p. (p, \<lparr>a_edge_id = PInt 102, a_seg_id = PInt 1, a_length_km = PFloat 12\<rparr>)
            \<in> set (g_edges (build_networkx_graph [mk_station_rec (PInt 1), mk_station_rec (PInt 2)]
                 [mk_edge_rec (PInt 1) (PInt 2) (PInt 101) (PFloat 10),
                  mk_edge_rec (PFloat 2) (PInt 1) (PInt 102) (PFloat 12),
                  mk_edge_rec (PInt 1) (PInt 1) (PInt 103) (PFloat 3)]))
          \<and> joins p (PFloat 2) (PInt 1))"
proof -
  let ?S = "[mk_station (pstr ''S1'') (lbl ''Alpha''), mk_station (pstr ''S2'') (lbl ''Beta'')]"
  let ?r1 = "mk_track (lbl ''Alpha'') (lbl ''Beta'') (PFloat 10) (PInt 1990) (pstr ''rail pass'')"
  let ?r2 = "mk_track (lbl ''Alpha'') (lbl ''Beta'') (PFloat 12) PNaN (pstr ''road'')"
  let ?T = "[mk_station_rec (PInt 1), mk_station_rec (PInt 2)]"
  let ?e1 = "mk_edge_rec (PInt 1) (PInt 2) (PInt 101) (PFloat 10)"
  let ?e2 = "mk_edge_rec (PFloat 2) (PInt 1) (PInt 102) (PFloat 12)"
  let ?e3 = "mk_edge_rec (PInt 1) (PInt 1) (PInt 103) (PFloat 3)"
  obtain st where b: "build_network ?S ([] @ [?r1] @ [] @ [?r2] @ []) = Inr st"
    by (simp add: build_network_def add_track_def Let_def mk_track_def norm_alpha norm_beta
        ex_index_alpha ex_index_beta year_int_of_def notna_def)
  have s: "start_station ?r2 = start_station ?r1" by (simp add: mk_track_def)
  have e: "end_station ?r2 = end_station ?r1" by (simp add: mk_track_def)
  have u: "pstr ''S1'' = dict_get (build_index ?S) (normalize_name (start_station ?r1))"
    by (simp add: mk_track_def norm_alpha ex_index_alpha)
  have v: "pstr ''S2'' = dict_get (build_index ?S) (normalize_name (end_station ?r1))"
    by (simp add: mk_track_def norm_beta ex_index_beta)
  have tu: "truthy (pstr ''S1'')" by simp
  have tv: "truthy (pstr ''S2'')" by simp
  have h1: "\<exists>s \<in> set ?T. py_eq (station_id_a s) (source_station ?e2)"
    by (simp add: mk_station_rec_def mk_edge_rec_def py_eq_def)
  have h2: "\<exists>s \<in> set ?T. py_eq (station_id_a s) (target_station ?e2)"
    by (simp add: mk_station_rec_def mk_edge_rec_def py_eq_def)
  have h3: "\<forall>e' \<in> set [?e3]. \<not> joins (source_station e', target_station e')
                                     (source_station ?e2) (target_station ?e2)"
    by (simp add: mk_edge_rec_def joins_def py_eq_def)
  have at: "attrs_of ?e2 = \<lparr>a_edge_id = PInt 102, a_seg_id = PInt 1, a_length_km = PFloat 12\<rparr>"
    by (simp add: attrs_of_def mk_edge_rec_def)
  have st2: "source_station ?e2 = PFloat 2" "target_station ?e2 = PInt 1"
    by (simp_all add: mk_edge_rec_def)
  note w = C2_parallel_edges_kept[of ?S "[]" ?r1 "[]" ?r2 "[]" st "pstr ''S1''" "pstr ''S2''"
      "PInt 1" "PInt 2" ?T "[?e1, ?e2, ?e3]" ?e2 "[?e3]" "[?e1]"]
  from w[THEN conjunct1, THEN mp, OF conjI[OF b conjI[OF s conjI[OF e conjI[OF u conjI[OF v
      conjI[OF tu tv]]]]]]] b tu tv
  have 1: "\<exists>st. build_network ?S ([] @ [?r1] @ [] @ [?r2] @ []) = Inr st
       \<and> truthy (pstr ''S1'') \<and> truthy (pstr ''S2'')
       \<and> (\<exists>es1 es2 es3 k1 k2 y1 y2.
             edges (G st)
             = es1 @ [track_edge (pstr ''S1'') (pstr ''S2'') k1 ?r1 y1]
               @ es2 @ [track_edge (pstr ''S1'') (pstr ''S2'') k2 ?r2 y2] @ es3
             \<and> k1 < k2
             \<and> year_int_of (year ?r1) = Inr y1 \<and> year_int_of (year ?r2) = Inr y2)"
    by blast
  from w[THEN conjunct2, THEN conjunct1]
  have 2: "length (filter (\<lambda>x. joins (fst x) (PInt 1) (PInt 2))
        (g_edges (build_networkx_graph ?T [?e1, ?e2, ?e3]))) \<le> 1" .
  from w[THEN conjunct2, THEN conjunct2, THEN mp, OF conjI[OF h1 conjI[OF h2 h3]]]
  have 3: "\<exists>p. (p, \<lparr>a_edge_id = PInt 102, a_seg_id = PInt 1, a_length_km = PFloat 12\<rparr>)
            \<in> set (g_edges (build_networkx_graph ?T [?e1, ?e2, ?e3]))
          \<and> joins p (PFloat 2) (PInt 1)"
    unfolding at st2 append.simps .
  from 1 2 3 show ?thesis by (intro conjI)
qed

text \<open>
  Counterexample to C2 as stated. First, \<open>build_networkx_graph\<close> builds a simple graph:
  two edge records between the stations 1 and 2, of 10 km and of 12 km, leave one edge,
  with the attributes of the second record. Second, in \<open>build network.py\<close> two tracks
  from \<open>Alpha\<close> to \<open>Beta\<close>, where the label \<open>Alpha\<close> resolves to the identifier 0, add no
  edge at all.
\<close>

theorem C2_counterexample:
  "g_edges (build_networkx_graph [mk_station_rec (PInt 1), mk_station_rec (PInt 2)]
              [mk_edge_rec (PInt 1) (PInt 2) (PInt 101) (PFloat 10),
               mk_edge_rec (PInt 1) (PInt 2) (PInt 102) (PFloat 12)])
     = [((PInt 1, PInt 2), \<lparr>a_edge_id = PInt 102, a_seg_id = PInt 1, a_length_km = PFloat 12\<rparr>)]
   \<and> outcome (build_network [mk_station (PInt 0) (lbl ''Alpha''), mk_station (PInt 7) (lbl ''Beta'')]
                [mk_track (lbl ''Alpha'') (lbl ''Beta'') (PFloat 10) (PInt 1990) (pstr ''road''),
                 mk_track (lbl ''Alpha'') (lbl ''Beta'') (PFloat 12) (PInt 1995) (pstr ''rail_good'')])
     = Inr (add_nodes [mk_station (PInt 0) (lbl ''Alpha''), mk_station (PInt 7) (lbl ''Beta'')]
              empty_graph, 0, [lbl ''Alpha'', lbl ''Alpha''])"
proof -
  let ?S = "[mk_station (PInt 0) (lbl ''Alpha''), mk_station (PInt 7) (lbl ''Beta'')]"
  have z: "dict_get (build_index ?S) (of_ascii ''alpha'') = PInt 0"
    by (simp add: norm_alpha norm_beta build_index_def mk_station_def dict_get_def)
  have e: "dict_get (build_index ?S) (of_ascii ''beta'') = PInt 7"
    by (simp add: norm_alpha norm_beta build_index_def mk_station_def dict_get_def)
  have 1: "g_edges (build_networkx_graph [mk_station_rec (PInt 1), mk_station_rec (PInt 2)]
              [mk_edge_rec (PInt 1) (PInt 2) (PInt 101) (PFloat 10),
               mk_edge_rec (PInt 1) (PInt 2) (PInt 102) (PFloat 12)])
     = [((PInt 1, PInt 2), \<lparr>a_edge_id = PInt 102, a_seg_id = PInt 1, a_length_km = PFloat 12\<rparr>)]"
    by (simp add: build_networkx_graph_def mk_station_rec_def mk_edge_rec_def graph_add_node_def
        nx_Graph_def add_edge_rec_def has_node_def graph_add_edge_def ensure_gnode_def joins_def
        attrs_of_def py_eq_def Let_def)
  have 2: "outcome (build_network ?S
                [mk_track (lbl ''Alpha'') (lbl ''Beta'') (PFloat 10) (PInt 1990) (pstr ''road''),
                 mk_track (lbl ''Alpha'') (lbl ''Beta'') (PFloat 12) (PInt 1995) (pstr ''rail_good'')])
     = Inr (add_nodes ?S empty_graph, 0, [lbl ''Alpha'', lbl ''Alpha''])"
    by (simp add: build_network_def outcome_def add_track_def Let_def mk_track_def
        norm_alpha norm_beta z e)
  from 1 2 show ?thesis by simp
qed

end
